theory Spec2Isabelle
  imports Complex_Main "HOL-Library.AList"
begin

section \<open>JavaScript strings\<close>

text \<open>
  A JavaScript string is modelled as a \<^typ>\<open>string\<close>, one \<^typ>\<open>char\<close> per code unit.
  \<open>s.includes(p)\<close>, \<open>s.startsWith(p)\<close> and \<open>s.endsWith(p)\<close> compare code units, with no
  case folding.
\<close>

definition startsWith :: "string \<Rightarrow> string \<Rightarrow> bool" where
  "startsWith s p = (take (length p) s = p)"

definition endsWith :: "string \<Rightarrow> string \<Rightarrow> bool" where
  "endsWith s p = (length p \<le> length s \<and> drop (length s - length p) s = p)"

fun str_includes :: "string \<Rightarrow> string \<Rightarrow> bool" where
  "str_includes [] p = (p = [])"
| "str_includes (c # cs) p = (startsWith (c # cs) p \<or> str_includes cs p)"

text \<open>
  What it means for a string to contain another, stated without the algorithm;
  \<open>str_includes\<close> is shown to decide it.
\<close>

definition contains :: "string \<Rightarrow> string \<Rightarrow> bool" where
  "contains s p = (\<exists>a b. s = a @ p @ b)"

text \<open>
  \<open>s.replace(pat, rep)\<close> with a string pattern replaces the first occurrence of \<open>pat\<close>
  only. (The source calls it with the replacement \<open>''\<close>, which has no \<open>$\<close> pattern.)
\<close>

fun replace :: "string \<Rightarrow> string \<Rightarrow> string \<Rightarrow> string" where
  "replace [] pat rep = (if pat = [] then rep else [])"
| "replace (c # cs) pat rep =
     (if startsWith (c # cs) pat then rep @ drop (length pat) (c # cs)
      else c # replace cs pat rep)"

text \<open>\<open>s.toLowerCase()\<close> on the letters A to Z; every other code unit of the model is unchanged.\<close>

definition lower_char :: "char \<Rightarrow> char" where
  "lower_char c =
     (case map_of (zip ''ABCDEFGHIJKLMNOPQRSTUVWXYZ'' ''abcdefghijklmnopqrstuvwxyz'') c of
        Some l \<Rightarrow> l
      | None \<Rightarrow> c)"

definition toLowerCase :: "string \<Rightarrow> string" where
  "toLowerCase s = map lower_char s"

text \<open>
  \<open>String(n)\<close> and \<open>`${n}`\<close> for a non-negative integer \<open>n\<close>: its decimal digits.
\<close>

function show_nat :: "nat \<Rightarrow> string" where
  "show_nat n =
     (if n < 10 then [''0123456789'' ! n]
      else show_nat (n div 10) @ [''0123456789'' ! (n mod 10)])"
  by pat_completeness auto
termination
  by (relation "measure id") auto

declare show_nat.simps [simp del]

text \<open>
  A thrown \<open>Error\<close>: its \<open>message\<close>, and the \<open>code\<close> that the errors of Node's
  \<open>fs\<close> carry (\<open>'ENOENT'\<close>, \<open>'EEXIST'\<close>), absent on any other error.
\<close>

datatype js_error = Error (message: string) (code: "string option")

text \<open>
  Truthiness of a value that is a string or \<open>undefined\<close>: \<open>undefined\<close> and the empty
  string are falsy. \<open>or_else a b\<close> is \<open>a || b\<close> on such values.
\<close>

definition truthy :: "string option \<Rightarrow> bool" where
  "truthy v = (case v of None \<Rightarrow> False | Some s \<Rightarrow> s \<noteq> [])"

definition or_else :: "string option \<Rightarrow> string \<Rightarrow> string" where
  "or_else v d = (case v of None \<Rightarrow> d | Some s \<Rightarrow> if s = [] then d else s)"

section \<open>Template builder: the tier catalogue\<close>

record template_config =
  databases :: "string list"
  views :: "string list"
  features :: "string list"

definition starter :: template_config where
  "starter = \<lparr>
     databases = [''projects'', ''tasks'', ''clients'', ''documents'', ''team-members''],
     views = [''active-projects'', ''pending-tasks'', ''client-overview'', ''recent-documents''],
     features = [''basic-project-tracking'', ''task-management'',
       ''client-contact-management'', ''document-storage'']\<rparr>"

definition professional :: template_config where
  "professional = \<lparr>
     databases = [''projects'', ''tasks'', ''clients'', ''documents'', ''team-members'',
       ''materials'', ''vendors'', ''budgets'', ''expenses'', ''schedules''],
     views = [''project-dashboard'', ''task-kanban'', ''client-portal'', ''material-inventory'',
       ''vendor-directory'', ''budget-tracking'', ''expense-reports'', ''project-timeline''],
     features = [''all-starter-features'', ''material-management'', ''vendor-management'',
       ''budget-tracking'', ''expense-management'', ''project-scheduling'',
       ''reporting-dashboard'']\<rparr>"

definition enterprise :: template_config where
  "enterprise = \<lparr>
     databases = [''projects'', ''tasks'', ''clients'', ''documents'', ''team-members'',
       ''materials'', ''vendors'', ''budgets'', ''expenses'', ''schedules'',
       ''portfolios'', ''contracts'', ''reports'', ''integrations'', ''automations''],
     views = [''portfolio-overview'', ''project-dashboard'', ''task-kanban'', ''client-portal'',
       ''material-inventory'', ''vendor-directory'', ''budget-tracking'', ''expense-reports'',
       ''project-timeline'', ''contract-management'', ''analytics-dashboard'',
       ''integration-hub''],
     features = [''all-professional-features'', ''portfolio-management'',
       ''contract-management'', ''advanced-analytics'', ''custom-integrations'',
       ''workflow-automation'', ''multi-project-tracking'', ''enterprise-reporting'']\<rparr>"

text \<open>
  \<open>templateConfigs[tier]\<close>: the object has the three keys below; for any other tier
  string the lookup is \<open>undefined\<close>, here \<open>None\<close>.
\<close>

definition templateConfigs :: "string \<Rightarrow> template_config option" where
  "templateConfigs tier =
     (if tier = ''starter'' then Some starter
      else if tier = ''professional'' then Some professional
      else if tier = ''enterprise'' then Some enterprise
      else None)"

section \<open>Template builder: views\<close>

definition getViewType :: "string \<Rightarrow> string" where
  "getViewType viewName =
     (if str_includes viewName ''kanban'' then ''kanban''
      else if str_includes viewName ''timeline'' \<or> str_includes viewName ''schedule''
        then ''timeline''
      else if str_includes viewName ''dashboard'' \<or> str_includes viewName ''overview''
        then ''table''
      else if str_includes viewName ''calendar'' then ''calendar''
      else ''table'')"

section \<open>Build package\<close>

text \<open>
  The build package is the JSON document that the builder writes and the deployment script
  reads back. Objects are records; an object used as a dictionary is the list of its
  entries in insertion order. Where two objects of the source have a member of the same
  name, the field of the second record carries a prefix (\<open>se_tier\<close>, \<open>bp_tier\<close>,
  \<open>cfg_tier\<close>); a member that may be absent is an \<^typ>\<open>'a option\<close>.
\<close>

record property =
  type :: "string option"
  options :: "string list option"
  format :: "string option"

record schema =
  title :: "string option"
  properties :: "(string \<times> property) list option"

record schema_entry =
  name :: string
  schema :: schema
  se_tier :: string

record view_sort =
  sort_property :: string
  direction :: string

record view_config =
  filters :: "string list"
  sorts :: "view_sort list"
  vc_properties :: "string list"
  groupBy :: "string option"

record view_entry =
  view_name :: string
  view_type :: string
  configuration :: view_config
  view_databases :: "string list"

datatype json =
    JNull
  | JBool bool
  | JNumber real
  | JString string
  | JArray "json list"
  | JObject "(string \<times> json) list"

type_synonym sample_record = "(string \<times> json) list"

record branding =
  companyName :: string
  logo :: "string option"
  colorScheme :: string

record settings =
  timezone :: string
  dateFormat :: string
  currency :: string
  measurementUnit :: string

record customizations =
  branding :: branding
  settings :: settings

record template_configuration =
  cfg_client :: string
  cfg_tier :: string
  cfg_includeSampleData :: bool
  customizations :: customizations
  cfg_features :: "string list"
  cfg_databases :: "string list"
  cfg_views :: "string list"

record documentation =
  doc_setup :: string
  doc_features :: string
  doc_api :: string
  troubleshooting :: string

record build_metadata =
  buildDuration :: int
  includedFeatures :: nat
  databaseCount :: nat
  viewCount :: nat

record build_package =
  buildId :: string
  timestamp :: string
  bp_client :: string
  bp_tier :: string
  version :: "string option"
  config :: template_configuration
  schemas :: "schema_entry list option"
  bp_views :: "view_entry list option"
  sampleData :: "(string \<times> sample_record list) list option"
  integrations :: "string list"
  documentation :: documentation
  metadata :: build_metadata

section \<open>The Node runtime\<close>

text \<open>
  What a script asks of its runtime is a parameter of the model:
  \<^item> \<open>env\<close> is \<open>process.env\<close>, \<open>cwd\<close> is \<open>process.cwd()\<close>, \<open>dirname\<close> is \<open>__dirname\<close>;
  \<^item> \<open>now k\<close> is the value of the \<open>k\<close>-th reading of the clock (\<open>Date.now()\<close> or
    \<open>new Date()\<close>) in the run, \<open>toISOString\<close> and \<open>toLocaleDateString\<close> format such a value;
  \<^item> \<open>mkdir\<close>, \<open>readdir\<close>, \<open>readFile\<close> and \<open>writeFile\<close> give the outcome of the call of
    \<open>fs.promises\<close> on a path: an error (\<open>Inl\<close>, or \<open>Some\<close> for a call with no result) when it
    rejects. A file is written with \<open>JSON.stringify\<close> of a value; the model passes the value.
  The state of a run is the number of clock readings made so far and the trace of the
  effects performed. Console output is not modelled.
\<close>

record 'c node =
  env :: "string \<Rightarrow> string option"
  cwd :: string
  dirname :: string
  now :: "nat \<Rightarrow> nat"
  toISOString :: "nat \<Rightarrow> string"
  toLocaleDateString :: "nat \<Rightarrow> string"
  mkdir :: "string \<Rightarrow> js_error option"
  readdir :: "string \<Rightarrow> js_error + string list"
  readFile :: "string \<Rightarrow> js_error + string"
  writeFile :: "string \<Rightarrow> 'c \<Rightarrow> js_error option"

datatype parent = Workspace | Page_id string | Database_id string

datatype block = Heading_1 string | Paragraph string

text \<open>
  The value of a member that the scripts read by name (\<open>type\<close>, \<open>options\<close>, \<open>format\<close>,
  \<open>properties\<close>) from a JSON value that is not \<open>null\<close>: \<open>None\<close> is \<open>undefined\<close>. Only
  an object has such a member; a string, a number, a boolean and an array have none and
  inherit none of these names. The members of an object are listed in the order in which
  \<open>Object.entries\<close> enumerates them, each name once.
\<close>

definition get_member :: "json \<Rightarrow> string \<Rightarrow> json option" where
  "get_member v k = (case v of JObject ms \<Rightarrow> map_of ms k | _ \<Rightarrow> None)"

text \<open>Truthiness of a JSON value: \<open>null\<close>, \<open>false\<close>, \<open>0\<close> and the empty string are falsy.\<close>

definition truthy_json :: "json \<Rightarrow> bool" where
  "truthy_json v =
     (case v of
        JNull \<Rightarrow> False
      | JBool b \<Rightarrow> b
      | JNumber n \<Rightarrow> n \<noteq> 0
      | JString str \<Rightarrow> str \<noteq> []
      | JArray xs \<Rightarrow> True
      | JObject ms \<Rightarrow> True)"

text \<open>
  \<open>Object.entries(v)\<close> for a value that is not \<open>null\<close>: the members of an object, the
  elements of an array and the characters of a string under their indices, and nothing for
  a number or a boolean.
\<close>

definition object_entries :: "json \<Rightarrow> (string \<times> json) list" where
  "object_entries v =
     (case v of
        JObject ms \<Rightarrow> ms
      | JArray xs \<Rightarrow> zip (map show_nat [0..<length xs]) xs
      | JString str \<Rightarrow> zip (map show_nat [0..<length str]) (map (\<lambda>c. JString [c]) str)
      | _ \<Rightarrow> [])"

text \<open>
  An assignment \<open>obj[name] = v\<close> of an object \<open>v\<close> to a plain object: it replaces the value
  of a member that is there and appends a new member (\<^const>\<open>AList.update\<close>), except for the
  name \<open>__proto__\<close>, which sets the prototype and adds no member.
\<close>

definition assign_member :: "string \<Rightarrow> json \<Rightarrow> (string \<times> json) list \<Rightarrow> (string \<times> json) list" where
  "assign_member nm v obj = (if nm = ''__proto__'' then obj else AList.update nm v obj)"

text \<open>
  The property of a page made from a sample record. \<open>Title_value v\<close> is
  \<open>{ title: [{ text: { content: String(v) } }] }\<close>, \<open>Select_value s\<close> is
  \<open>{ select: { name: s } }\<close>, \<open>Number_value n\<close> is \<open>{ number: n }\<close> and \<open>Rich_text_value v\<close> is
  \<open>{ rich_text: [{ text: { content: String(v) } }] }\<close>.
\<close>

datatype page_value =
    Title_value json
  | Select_value string
  | Number_value real
  | Rich_text_value json

datatype page_properties =
    Title_only string
  | Record_properties "(string \<times> page_value) list"

record page_request =
  parent :: parent
  page_properties :: page_properties
  children :: "block list option"

record database_request =
  db_parent :: parent
  db_title :: string
  db_properties :: "(string \<times> json) list"

datatype event =
    Call_users_me
  | Call_search string
  | Call_pages_create page_request
  | Call_databases_create database_request
  | Sleep nat
  | Mkdir string
  | Write_file string

record run =
  ticks :: nat
  trace :: "event list"

definition Date_now :: "'c node \<Rightarrow> 'a run_scheme \<Rightarrow> nat \<times> 'a run_scheme" where
  "Date_now nd w = (now nd (ticks w), w\<lparr>ticks := Suc (ticks w)\<rparr>)"

definition sleep :: "nat \<Rightarrow> 'a run_scheme \<Rightarrow> 'a run_scheme" where
  "sleep ms w = w\<lparr>trace := trace w @ [Sleep ms]\<rparr>"

text \<open>
  \<open>path.join(a, b)\<close> for the segments the scripts join; the paths are only handed on to the
  runtime, so they are not normalised.
\<close>

definition path_join :: "string \<Rightarrow> string \<Rightarrow> string" where
  "path_join a b = a @ ''/'' @ b"

definition write_file :: "'c node \<Rightarrow> string \<Rightarrow> 'c \<Rightarrow> 'a run_scheme \<Rightarrow> (js_error + unit) \<times> 'a run_scheme" where
  "write_file nd path content w =
     (case writeFile nd path content of
        Some e \<Rightarrow> (Inl e, w\<lparr>trace := trace w @ [Write_file path]\<rparr>)
      | None \<Rightarrow> (Inr (), w\<lparr>trace := trace w @ [Write_file path]\<rparr>))"

section \<open>Template builder: view configurations\<close>

definition generateViewConfig :: "string \<Rightarrow> string \<Rightarrow> view_config" where
  "generateViewConfig viewName tier =
     \<lparr>filters = [],
      sorts = [\<lparr>sort_property = ''created_time'', direction = ''descending''\<rparr>],
      vc_properties = [''title'', ''status'', ''created_time''],
      groupBy = (if str_includes viewName ''status'' then Some ''status'' else None)\<rparr>"

definition databaseMappings :: "(string \<times> string list) list" where
  "databaseMappings =
     [(''active-projects'', [''projects'']),
      (''pending-tasks'', [''tasks'']),
      (''client-overview'', [''clients'']),
      (''project-dashboard'', [''projects'', ''tasks'']),
      (''task-kanban'', [''tasks'']),
      (''material-inventory'', [''materials'']),
      (''vendor-directory'', [''vendors'']),
      (''budget-tracking'', [''budgets'']),
      (''portfolio-overview'', [''portfolios'', ''projects''])]"

definition getViewDatabases :: "string \<Rightarrow> string list" where
  "getViewDatabases viewName =
     (case map_of databaseMappings viewName of Some dbs \<Rightarrow> dbs | None \<Rightarrow> [''projects''])"

text \<open>
  Reading a member of \<open>templateConfigs[tier]\<close> for a tier that is not in the catalogue
  throws a \<open>TypeError\<close>; its message quotes the member (\<open>0x27\<close> is the single quote).
\<close>

definition TypeError_undefined :: "string \<Rightarrow> js_error" where
  "TypeError_undefined member =
     Error (''Cannot read properties of undefined (reading '' @ [CHR 0x27] @ member
       @ [CHR 0x27] @ '')'') None"

definition buildViewConfigurations :: "string \<Rightarrow> js_error + view_entry list" where
  "buildViewConfigurations tier =
     (case templateConfigs tier of
        None \<Rightarrow> Inl (TypeError_undefined ''views'')
      | Some cfg \<Rightarrow>
          Inr (map (\<lambda>viewName.
                 \<lparr>view_name = viewName,
                  view_type = getViewType viewName,
                  configuration = generateViewConfig viewName tier,
                  view_databases = getViewDatabases viewName\<rparr>) (views cfg)))"

section \<open>Template builder: schemas\<close>

definition generateDefaultSchemas :: "string \<Rightarrow> schema_entry list" where
  "generateDefaultSchemas tier =
     [\<lparr>name = ''projects'',
       schema = \<lparr>
         title = Some ''Projects'',
         properties = Some
           [(''Name'', \<lparr>type = Some ''title'', options = None, format = None\<rparr>),
            (''Status'', \<lparr>type = Some ''select'',
               options = Some [''Planning'', ''In Progress'', ''Completed''], format = None\<rparr>),
            (''Budget'', \<lparr>type = Some ''number'', options = None,
               format = Some ''dollar''\<rparr>)]\<rparr>,
       se_tier = tier\<rparr>]"

text \<open>
  The loop of \<open>buildDatabaseSchemas\<close> over the \<open>.json\<close> files that remain. Everything it
  does stands in the \<open>try\<close> block: a file that cannot be read, a content that
  \<open>JSON.parse\<close> rejects (\<open>parse\<close> below) and the \<open>TypeError\<close> of an unknown tier all end the
  loop in the \<open>catch\<close> block, which appends the default schemas to the schemas collected so
  far.
\<close>

fun schemas_loop ::
  "'c node \<Rightarrow> (string \<Rightarrow> js_error + schema) \<Rightarrow> string \<Rightarrow> string \<Rightarrow> string list
    \<Rightarrow> schema_entry list \<Rightarrow> schema_entry list" where
  "schemas_loop nd parse tier base [] acc = acc"
| "schemas_loop nd parse tier base (file # rest) acc =
     (case readFile nd (path_join base file) of
        Inl e \<Rightarrow> acc @ generateDefaultSchemas tier
      | Inr schemaContent \<Rightarrow>
          (case parse schemaContent of
             Inl e \<Rightarrow> acc @ generateDefaultSchemas tier
           | Inr sch \<Rightarrow>
               (let schemaName = replace file ''.json'' []
                in case templateConfigs tier of
                     None \<Rightarrow> acc @ generateDefaultSchemas tier
                   | Some cfg \<Rightarrow>
                       if schemaName \<in> set (databases cfg)
                       then schemas_loop nd parse tier base rest
                              (acc @ [\<lparr>name = schemaName, schema = sch, se_tier = tier\<rparr>])
                       else schemas_loop nd parse tier base rest acc)))"

definition baseSchemasPath :: "'c node \<Rightarrow> string" where
  "baseSchemasPath nd =
     path_join (path_join (path_join (path_join (dirname nd) ''..'') ''src'') ''schemas'')
       ''databases''"

definition buildDatabaseSchemas ::
  "'c node \<Rightarrow> (string \<Rightarrow> js_error + schema) \<Rightarrow> string \<Rightarrow> schema_entry list" where
  "buildDatabaseSchemas nd parse tier =
     (case readdir nd (baseSchemasPath nd) of
        Inl e \<Rightarrow> generateDefaultSchemas tier
      | Inr files \<Rightarrow>
          schemas_loop nd parse tier (baseSchemasPath nd)
            (filter (\<lambda>file. endsWith file ''.json'') files) [])"

text \<open>
  The entry that the loop makes of a file it has read and parsed (\<open>projr\<close> takes the
  result out of \<open>Inr\<close>); the properties below use it to state what the loop returns.
\<close>

definition schema_of_file :: "'c node \<Rightarrow> (string \<Rightarrow> js_error + schema) \<Rightarrow> string \<Rightarrow> string \<Rightarrow> string \<Rightarrow> schema_entry" where
  "schema_of_file nd parse tier base file =
     \<lparr>name = replace file ''.json'' [],
      schema = projr (parse (projr (readFile nd (path_join base file)))),
      se_tier = tier\<rparr>"

section \<open>Template builder: sample data\<close>

text \<open>
  \<open>new Date(t).toISOString().split('T')[0]\<close>: the text before the first \<open>T\<close>.
\<close>

definition iso_date :: "'c node \<Rightarrow> nat \<Rightarrow> string" where
  "iso_date nd t = takeWhile (\<lambda>c. c \<noteq> CHR ''T'') (toISOString nd t)"

text \<open>
  The generators read the clock once in every iteration: iteration \<open>i\<close> (from 1) of a loop
  that starts after \<open>k\<close> readings sees \<open>now (k + i - 1)\<close>.
\<close>

definition sampleProject :: "'c node \<Rightarrow> string \<Rightarrow> nat \<Rightarrow> nat \<Rightarrow> sample_record" where
  "sampleProject nd client k i =
     [(''title'', JString (client @ '' Project '' @ show_nat i)),
      (''status'', JString (if i = 1 then ''In Progress''
                            else if i = 2 then ''Planning'' else ''Not Started'')),
      (''type'', JString ''Commercial Construction''),
      (''budget'', JNumber (100000 * real i)),
      (''startDate'', JString (iso_date nd
         (now nd (k + i - 1) + i * 7 * 24 * 60 * 60 * 1000))),
      (''description'', JString (''Sample construction project '' @ show_nat i
         @ '' for '' @ client))]"

definition generateSampleProjects ::
  "'c node \<Rightarrow> string \<Rightarrow> string \<Rightarrow> 'a run_scheme \<Rightarrow> sample_record list \<times> 'a run_scheme" where
  "generateSampleProjects nd tier client w =
     (let projectCount = (if tier = ''starter'' then 2
                          else if tier = ''professional'' then 5 else 8)
      in (map (sampleProject nd client (ticks w)) [1..<Suc projectCount],
          w\<lparr>ticks := ticks w + projectCount\<rparr>))"

definition taskTypes :: "string list" where
  "taskTypes = [''Foundation'', ''Framing'', ''Electrical'', ''Plumbing'', ''Roofing'',
     ''Finishing'']"

definition sampleTask :: "'c node \<Rightarrow> nat \<Rightarrow> nat \<Rightarrow> sample_record" where
  "sampleTask nd k i =
     [(''title'', JString (taskTypes ! (i mod length taskTypes) @ '' - Task '' @ show_nat i)),
      (''status'', JString (if i mod 3 = 0 then ''Completed''
                            else if i mod 3 = 1 then ''In Progress'' else ''Not Started'')),
      (''priority'', JString (if i mod 4 = 0 then ''High'' else ''Normal'')),
      (''dueDate'', JString (iso_date nd
         (now nd (k + i - 1) + i * 24 * 60 * 60 * 1000)))]"

definition generateSampleTasks ::
  "'c node \<Rightarrow> string \<Rightarrow> 'a run_scheme \<Rightarrow> sample_record list \<times> 'a run_scheme" where
  "generateSampleTasks nd tier w =
     (let taskCount = (if tier = ''starter'' then 10
                       else if tier = ''professional'' then 25 else 40)
      in (map (sampleTask nd (ticks w)) [1..<Suc taskCount],
          w\<lparr>ticks := ticks w + taskCount\<rparr>))"

definition generateSampleClients :: "string \<Rightarrow> string \<Rightarrow> sample_record list" where
  "generateSampleClients tier client =
     [[(''name'', JString client),
       (''type'', JString ''Primary Client''),
       (''contact'', JString ''project@example.com''),
       (''phone'', JString ''(555) 123-4567''),
       (''status'', JString ''Active'')]]"

definition generateSampleMaterials :: "string \<Rightarrow> sample_record list" where
  "generateSampleMaterials tier =
     [[(''name'', JString ''Concrete''), (''unit'', JString ''cubic yards''),
       (''cost'', JNumber 120), (''supplier'', JString ''ABC Concrete'')],
      [(''name'', JString ''Steel Rebar''), (''unit'', JString ''tons''),
       (''cost'', JNumber 800), (''supplier'', JString ''Steel Supply Co'')],
      [(''name'', JString ''2x4 Lumber''), (''unit'', JString ''board feet''),
       (''cost'', JNumber 0.75), (''supplier'', JString ''Lumber Depot'')]]"

definition generateSampleVendors :: "string \<Rightarrow> sample_record list" where
  "generateSampleVendors tier =
     [[(''name'', JString ''ABC Concrete''), (''type'', JString ''Material Supplier''),
       (''contact'', JString ''orders@abcconcrete.com'')],
      [(''name'', JString ''Steel Supply Co''), (''type'', JString ''Material Supplier''),
       (''contact'', JString ''sales@steelsupply.com'')],
      [(''name'', JString ''Elite Electrical''), (''type'', JString ''Subcontractor''),
       (''contact'', JString ''jobs@eliteelectric.com'')]]"

text \<open>
  \<open>generateSampleData\<close>: the members whose value is \<open>null\<close> are deleted, the others keep
  their order.
\<close>

definition generateSampleData ::
  "'c node \<Rightarrow> string \<Rightarrow> string \<Rightarrow> 'a run_scheme
    \<Rightarrow> (string \<times> sample_record list) list \<times> 'a run_scheme" where
  "generateSampleData nd tier client w =
     (case generateSampleProjects nd tier client w of
        (projects, w1) \<Rightarrow>
          (case generateSampleTasks nd tier w1 of
             (tasks, w2) \<Rightarrow>
               ([(''projects'', projects), (''tasks'', tasks),
                 (''clients'', generateSampleClients tier client)]
                @ (if tier \<noteq> ''starter''
                   then [(''materials'', generateSampleMaterials tier)] else [])
                @ (if tier = ''enterprise'' \<or> tier = ''professional''
                   then [(''vendors'', generateSampleVendors tier)] else []),
                w2)))"

section \<open>Template builder: the build\<close>

record build_options =
  opt_tier :: string
  opt_client :: string
  opt_sampleData :: bool

definition generateTemplateConfig :: "build_options \<Rightarrow> js_error + template_configuration" where
  "generateTemplateConfig opts =
     (case templateConfigs (opt_tier opts) of
        None \<Rightarrow> Inl (TypeError_undefined ''features'')
      | Some cfg \<Rightarrow>
          Inr \<lparr>cfg_client = opt_client opts,
               cfg_tier = opt_tier opts,
               cfg_includeSampleData = opt_sampleData opts,
               customizations = \<lparr>
                 branding = \<lparr>companyName = opt_client opts, logo = None,
                   colorScheme = ''construction-blue''\<rparr>,
                 settings = \<lparr>timezone = ''UTC'', dateFormat = ''MM/DD/YYYY'',
                   currency = ''USD'', measurementUnit = ''imperial''\<rparr>\<rparr>,
               cfg_features = features cfg,
               cfg_databases = databases cfg,
               cfg_views = views cfg\<rparr>)"

definition buildIntegrationConfigs :: "string \<Rightarrow> string list" where
  "buildIntegrationConfigs tier = []"

definition generateDocumentation :: "build_options \<Rightarrow> documentation" where
  "generateDocumentation opts =
     \<lparr>doc_setup = ''Setup guide for '' @ opt_tier opts @ '' tier construction template'',
      doc_features = ''Feature documentation for '' @ opt_client opts,
      doc_api = ''API integration documentation'',
      troubleshooting = ''Common issues and solutions''\<rparr>"

text \<open>
  \<open>getPackageVersion\<close>: the argument is the outcome of \<open>require('../package.json')\<close>,
  \<open>None\<close> when it throws, else the \<open>version\<close> member of the document (which may be absent).
\<close>

definition getPackageVersion :: "string option option \<Rightarrow> string option" where
  "getPackageVersion packageJson =
     (case packageJson of None \<Rightarrow> Some ''1.0.0'' | Some v \<Rightarrow> v)"

datatype build_output =
    Package_json build_package
  | Schema_json schema_entry
  | Readme string

definition ensureDirectoryExists ::
  "'c node \<Rightarrow> string \<Rightarrow> 'a run_scheme \<Rightarrow> (js_error + unit) \<times> 'a run_scheme" where
  "ensureDirectoryExists nd dirPath w =
     (let w1 = w\<lparr>trace := trace w @ [Mkdir dirPath]\<rparr>
      in case mkdir nd dirPath of
           None \<Rightarrow> (Inr (), w1)
         | Some e \<Rightarrow> if code e \<noteq> Some ''EEXIST'' then (Inl e, w1) else (Inr (), w1))"

fun save_schemas ::
  "build_output node \<Rightarrow> schema_entry list \<Rightarrow> 'a run_scheme \<Rightarrow> (js_error + unit) \<times> 'a run_scheme" where
  "save_schemas nd [] w = (Inr (), w)"
| "save_schemas nd (sch # rest) w =
     (case write_file nd (path_join ''dist/schemas'' (name sch @ ''.json'')) (Schema_json sch) w of
        (Inl e, w1) \<Rightarrow> (Inl e, w1)
      | (Inr u, w1) \<Rightarrow> save_schemas nd rest w1)"

text \<open>
  \<open>saveBuildComponents\<close> iterates \<open>buildPackage.schemas\<close>, which the builder has set to a list.
\<close>

definition saveBuildComponents ::
  "build_output node \<Rightarrow> build_package \<Rightarrow> 'a run_scheme \<Rightarrow> (js_error + unit) \<times> 'a run_scheme" where
  "saveBuildComponents nd buildPackage w =
     (case ensureDirectoryExists nd ''dist/schemas'' w of
        (Inl e, w1) \<Rightarrow> (Inl e, w1)
      | (Inr u, w1) \<Rightarrow>
          (case save_schemas nd (case schemas buildPackage of None \<Rightarrow> [] | Some l \<Rightarrow> l) w1 of
             (Inl e, w2) \<Rightarrow> (Inl e, w2)
           | (Inr u2, w2) \<Rightarrow>
               (case ensureDirectoryExists nd ''dist/docs'' w2 of
                  (Inl e, w3) \<Rightarrow> (Inl e, w3)
                | (Inr u3, w3) \<Rightarrow>
                    write_file nd (path_join ''dist/docs'' ''README.md'')
                      (Readme (''# '' @ bp_client buildPackage
                         @ '' Construction Template'' @ [CHR 0x0A, CHR 0x0A]
                         @ ''Tier: '' @ bp_tier buildPackage @ [CHR 0x0A]
                         @ ''Built: '' @ timestamp buildPackage)) w3)))"

text \<open>
  \<open>buildTemplate\<close>. \<open>parse\<close> is \<open>JSON.parse\<close> on the content of a schema file and
  \<open>packageJson\<close> the outcome of requiring \<open>package.json\<close>. The \<open>catch\<close> block logs the error
  and throws it again.
\<close>

definition buildTemplate ::
  "build_output node \<Rightarrow> (string \<Rightarrow> js_error + schema) \<Rightarrow> string option option \<Rightarrow> build_options
    \<Rightarrow> run \<Rightarrow> (js_error + build_package) \<times> run" where
  "buildTemplate nd parse packageJson opts w =
     (case Date_now nd w of
        (start, w1) \<Rightarrow>
     (case Date_now nd w1 of
        (t2, w2) \<Rightarrow>
     (let build_id = ''build-'' @ show_nat t2
      in case ensureDirectoryExists nd ''dist'' w2 of
           (Inl e, w3) \<Rightarrow> (Inl e, w3)
         | (Inr u, w3) \<Rightarrow>
     (case generateTemplateConfig opts of
        Inl e \<Rightarrow> (Inl e, w3)
      | Inr templateConfig \<Rightarrow>
     (let db_schemas = buildDatabaseSchemas nd parse (opt_tier opts)
      in case buildViewConfigurations (opt_tier opts) of
           Inl e \<Rightarrow> (Inl e, w3)
         | Inr view_list \<Rightarrow>
     (case (if opt_sampleData opts
            then (case generateSampleData nd (opt_tier opts) (opt_client opts) w3 of
                    (d, w') \<Rightarrow> (Some d, w'))
            else (None, w3)) of
        (sample, w4) \<Rightarrow>
     (let integ = buildIntegrationConfigs (opt_tier opts);
          docs = generateDocumentation opts
      in case Date_now nd w4 of
           (t5, w5) \<Rightarrow>
     (case Date_now nd w5 of
        (t6, w6) \<Rightarrow>
     (case templateConfigs (opt_tier opts) of
        None \<Rightarrow> (Inl (TypeError_undefined ''features''), w6)
      | Some cfg \<Rightarrow>
     (let buildPackage = \<lparr>
            buildId = build_id,
            timestamp = toISOString nd t5,
            bp_client = opt_client opts,
            bp_tier = opt_tier opts,
            version = getPackageVersion packageJson,
            config = templateConfig,
            schemas = Some db_schemas,
            bp_views = Some view_list,
            sampleData = sample,
            integrations = integ,
            documentation = docs,
            metadata = \<lparr>
              buildDuration = int t6 - int start,
              includedFeatures = length (features cfg),
              databaseCount = length db_schemas,
              viewCount = length view_list\<rparr>\<rparr>
      in case write_file nd
                (path_join ''dist''
                   (''template-'' @ opt_tier opts @ ''-'' @ build_id @ ''.json''))
                (Package_json buildPackage) w6 of
           (Inl e, w7) \<Rightarrow> (Inl e, w7)
         | (Inr u7, w7) \<Rightarrow>
     (case saveBuildComponents nd buildPackage w7 of
        (Inl e, w8) \<Rightarrow> (Inl e, w8)
      | (Inr u8, w8) \<Rightarrow> (Inr buildPackage, snd (Date_now nd w8)))))))))))))"

section \<open>Input validation script\<close>

text \<open>
  \<open>validateClientName\<close>: the character class \<open>[<>:"/\\|?*]\<close> of \<open>problematicChars\<close> is the
  list of its nine characters (\<open>0x22\<close> is the double quote, \<open>0x5C\<close> the backslash).
\<close>

definition problematicChars :: "char list" where
  "problematicChars =
     [CHR ''<'', CHR ''>'', CHR '':'', CHR 0x22, CHR ''/'', CHR 0x5C, CHR ''|'', CHR ''?'',
      CHR ''*'']"

definition reservedWords :: "string list" where
  "reservedWords = [''notion'', ''template'', ''system'', ''admin'', ''api'']"

definition validateClientName :: "string \<Rightarrow> js_error + unit" where
  "validateClientName client =
     (if \<exists>c \<in> set client. c \<in> set problematicChars
      then Inl (Error ''Client name contains invalid characters'' None)
      else if toLowerCase client \<in> set reservedWords
      then Inl (Error ''Client name cannot be a reserved word'' None)
      else Inr ())"

section \<open>Cost estimator\<close>

text \<open>
  The counts and weights are small non-negative integers, so JavaScript's numbers are
  modelled by \<^typ>\<open>nat\<close>; \<open>Math.ceil(a / b)\<close> is the ceiling of the real quotient.
  The fields of \<open>tierCosts\<close> carry the prefix \<open>tc_\<close>, since \<open>databases\<close> and \<open>views\<close> are
  the fields of \<open>templateConfigs\<close> already.
\<close>

record tier_cost =
  tc_databases :: nat
  tc_views :: nat
  tc_pages :: nat
  tc_properties :: nat
  tc_integrations :: nat
  tc_automations :: nat
  tc_sampleData :: "(string \<times> nat) list"

definition tierCosts :: "string \<Rightarrow> tier_cost option" where
  "tierCosts tier =
     (if tier = ''starter'' then Some \<lparr>
        tc_databases = 8, tc_views = 15, tc_pages = 50, tc_properties = 40,
        tc_integrations = 0, tc_automations = 5,
        tc_sampleData = [(''projects'', 3), (''tasks'', 25), (''clients'', 5),
          (''materials'', 20)]\<rparr>
      else if tier = ''professional'' then Some \<lparr>
        tc_databases = 15, tc_views = 35, tc_pages = 150, tc_properties = 100,
        tc_integrations = 10, tc_automations = 20,
        tc_sampleData = [(''projects'', 8), (''tasks'', 80), (''clients'', 15),
          (''materials'', 100), (''vendors'', 12), (''budgets'', 8)]\<rparr>
      else if tier = ''enterprise'' then Some \<lparr>
        tc_databases = 25, tc_views = 60, tc_pages = 300, tc_properties = 200,
        tc_integrations = 25, tc_automations = 40,
        tc_sampleData = [(''projects'', 15), (''tasks'', 200), (''clients'', 30),
          (''materials'', 250), (''vendors'', 25), (''budgets'', 15), (''reports'', 20),
          (''portfolios'', 5)]\<rparr>
      else None)"

record api_weights =
  createDatabase :: nat
  updateDatabase :: nat
  createPage :: nat
  updatePage :: nat
  addProperty :: nat
  createView :: nat
  setupIntegration :: nat
  createAutomation :: nat
  uploadFile :: nat

definition apiWeights :: api_weights where
  "apiWeights = \<lparr>createDatabase = 2, updateDatabase = 1, createPage = 1, updatePage = 1,
     addProperty = 1, createView = 1, setupIntegration = 3, createAutomation = 2,
     uploadFile = 1\<rparr>"

record compute_cost =
  compute_minutes :: nat
  estimated :: string

record cost_info =
  cost_apiCalls :: nat
  compute :: compute_cost
  total :: string
  note_text :: string

definition calculateCost :: "nat \<Rightarrow> cost_info" where
  "calculateCost apiCalls =
     (let computeMinutes = nat \<lceil>real apiCalls / 60\<rceil>
      in \<lparr>cost_apiCalls = 0,
          compute = \<lparr>compute_minutes = computeMinutes, estimated = ''$0.00''\<rparr>,
          total = ''$0.00'',
          note_text = ''Notion API calls are free, compute costs are typically included in CI/CD platforms''\<rparr>)"

definition formatTime :: "nat \<Rightarrow> string" where
  "formatTime seconds =
     (if seconds < 60 then show_nat seconds @ '' seconds''
      else if seconds < 3600 then
        (let minutes = seconds div 60; remainingSeconds = seconds mod 60
         in show_nat minutes @ ''m '' @ show_nat remainingSeconds @ ''s'')
      else
        (let hours = seconds div 3600; minutes = (seconds mod 3600) div 60
         in show_nat hours @ ''h '' @ show_nat minutes @ ''m''))"

definition generateRecommendations :: "string \<Rightarrow> nat \<Rightarrow> string list" where
  "generateRecommendations tier apiCalls =
     (if apiCalls > 1000
      then [''Consider running deployment during off-peak hours to minimize impact'',
            ''Monitor API rate limits closely during deployment'']
      else [])
     @ (if tier = ''starter''
        then [''Starter tier deployment should complete quickly'',
              ''Consider upgrading to Professional for more features'']
        else if tier = ''enterprise''
        then [''Enterprise deployment includes all features and integrations'',
              ''Allow extra time for complex automation setup'']
        else [])
     @ (if apiCalls < 100
        then [''This is a lightweight deployment that should complete very quickly'']
        else [])"

record estimated_time =
  seconds :: nat
  minutes :: nat
  formatted :: string

record cost_estimate =
  est_tier :: string
  totalApiCalls :: nat
  estimatedTime :: estimated_time
  breakdown :: "(string \<times> nat) list"
  rateLimit :: string
  includeSampleData :: bool
  cost :: cost_info
  recommendations :: "string list"

text \<open>
  \<open>estimateDeploymentCost(tier, options = {})\<close>. The argument \<open>sample_opt\<close> below is
  \<open>options.sampleData\<close>, \<open>None\<close> when the member is absent; only the value \<open>false\<close>
  switches the sample data off (\<open>options.sampleData !== false\<close>). The \<open>breakdown\<close> object is
  the list of its members in insertion order.
\<close>

definition estimateDeploymentCost :: "string \<Rightarrow> bool option \<Rightarrow> js_error + cost_estimate" where
  "estimateDeploymentCost tier sample_opt =
     (case tierCosts tier of
        None \<Rightarrow> Inl (Error (''Unknown tier: '' @ tier) None)
      | Some tierConfig \<Rightarrow>
          (let includeSample = (sample_opt \<noteq> Some False);
               databaseCalls = tc_databases tierConfig * createDatabase apiWeights;
               viewCalls = tc_views tierConfig * createView apiWeights;
               propertyCalls = tc_properties tierConfig * addProperty apiWeights;
               integrationCalls = tc_integrations tierConfig * setupIntegration apiWeights;
               automationCalls = tc_automations tierConfig * createAutomation apiWeights;
               sampleDataCalls =
                 foldl (\<lambda>sum count. sum + count) 0 (map snd (tc_sampleData tierConfig))
                   * createPage apiWeights;
               baseCalls = 20;
               totalCalls = databaseCalls + viewCalls + propertyCalls + integrationCalls
                 + automationCalls + (if includeSample then sampleDataCalls else 0) + baseCalls;
               estimatedSeconds = nat \<lceil>real totalCalls / 3\<rceil>;
               estimatedMinutes = nat \<lceil>real estimatedSeconds / 60\<rceil>
           in Inr \<lparr>
                est_tier = tier,
                totalApiCalls = totalCalls,
                estimatedTime = \<lparr>seconds = estimatedSeconds, minutes = estimatedMinutes,
                  formatted = formatTime estimatedSeconds\<rparr>,
                breakdown =
                  [(''databases'', databaseCalls), (''views'', viewCalls),
                   (''properties'', propertyCalls), (''integrations'', integrationCalls),
                   (''automations'', automationCalls)]
                  @ (if includeSample then [(''sampleData'', sampleDataCalls)] else [])
                  @ [(''baseSetup'', baseCalls)],
                rateLimit = ''3 requests/second (Notion API)'',
                includeSampleData = includeSample,
                cost = calculateCost totalCalls,
                recommendations = generateRecommendations tier totalCalls\<rparr>))"

section \<open>Deployment script: state and remote API\<close>

record created_resource =
  res_type :: string
  res_name :: "string option"
  res_id :: string

record deployment_error =
  phase :: string
  resource :: string
  error :: string

record deployment_state =
  client :: "string option"
  tier :: "string option"
  startTime :: "nat option"
  completedSteps :: "string list"
  createdResources :: "created_resource list"
  errors :: "deployment_error list"

text \<open>The module-level \<open>deploymentState\<close>, as the script declares it.\<close>

definition initial_deploymentState :: deployment_state where
  "initial_deploymentState = \<lparr>client = None, tier = None, startTime = None,
     completedSteps = [], createdResources = [], errors = []\<rparr>"

text \<open>
  The Notion client. The workspace behind it has a state of its own, of an arbitrary type
  \<open>'r\<close>: a call answers with an error (the promise rejects) or a result, and leaves a new
  state. Of the object a call returns the script reads the \<open>id\<close> only (for \<open>users.me()\<close>
  the \<open>name\<close>, for \<open>search\<close> the \<open>id\<close>s of \<open>results\<close>); the result is that string. The
  \<open>filter\<close> of \<open>search\<close> is the constant \<open>{ property: 'object', value: 'page' }\<close>.
\<close>

record 'r notion =
  users_me :: "'r \<Rightarrow> (js_error + string) \<times> 'r"
  search :: "string \<Rightarrow> 'r \<Rightarrow> (js_error + string list) \<times> 'r"
  pages_create :: "page_request \<Rightarrow> 'r \<Rightarrow> (js_error + string) \<times> 'r"
  databases_create :: "database_request \<Rightarrow> 'r \<Rightarrow> (js_error + string) \<times> 'r"

record 'r world = run +
  deploymentState :: deployment_state
  remote :: 'r

definition call_users_me :: "'r notion \<Rightarrow> 'r world \<Rightarrow> (js_error + string) \<times> 'r world" where
  "call_users_me nt w =
     (case users_me nt (remote w) of
        (res, r) \<Rightarrow> (res, w\<lparr>trace := trace w @ [Call_users_me], remote := r\<rparr>))"

definition call_search :: "'r notion \<Rightarrow> string \<Rightarrow> 'r world \<Rightarrow> (js_error + string list) \<times> 'r world" where
  "call_search nt q w =
     (case search nt q (remote w) of
        (res, r) \<Rightarrow> (res, w\<lparr>trace := trace w @ [Call_search q], remote := r\<rparr>))"

definition call_pages_create :: "'r notion \<Rightarrow> page_request \<Rightarrow> 'r world \<Rightarrow> (js_error + string) \<times> 'r world" where
  "call_pages_create nt req w =
     (case pages_create nt req (remote w) of
        (res, r) \<Rightarrow> (res, w\<lparr>trace := trace w @ [Call_pages_create req], remote := r\<rparr>))"

definition call_databases_create :: "'r notion \<Rightarrow> database_request \<Rightarrow> 'r world \<Rightarrow> (js_error + string) \<times> 'r world" where
  "call_databases_create nt req w =
     (case databases_create nt req (remote w) of
        (res, r) \<Rightarrow> (res, w\<lparr>trace := trace w @ [Call_databases_create req], remote := r\<rparr>))"

definition push_step :: "string \<Rightarrow> 'r world \<Rightarrow> 'r world" where
  "push_step s w = w\<lparr>deploymentState := (deploymentState w)
     \<lparr>completedSteps := completedSteps (deploymentState w) @ [s]\<rparr>\<rparr>"

definition push_resource :: "created_resource \<Rightarrow> 'r world \<Rightarrow> 'r world" where
  "push_resource r w = w\<lparr>deploymentState := (deploymentState w)
     \<lparr>createdResources := createdResources (deploymentState w) @ [r]\<rparr>\<rparr>"

definition push_error :: "deployment_error \<Rightarrow> 'r world \<Rightarrow> 'r world" where
  "push_error e w = w\<lparr>deploymentState := (deploymentState w)
     \<lparr>errors := errors (deploymentState w) @ [e]\<rparr>\<rparr>"

section \<open>Deployment script: initialisation\<close>

definition initializeEnvironment :: "'c node \<Rightarrow> 'r world \<Rightarrow> (js_error + unit) \<times> 'r world" where
  "initializeEnvironment nd w =
     (let w1 = w\<lparr>deploymentState := (deploymentState w)
            \<lparr>client := env nd ''CLIENT_NAME'',
             tier := Some (or_else (env nd ''DEPLOYMENT_TIER'') ''professional'')\<rparr>\<rparr>
      in if \<not> truthy (client (deploymentState w1))
         then (Inl (Error ''CLIENT_NAME environment variable is required'' None), w1)
         else if \<not> truthy (env nd ''NOTION_TOKEN'')
         then (Inl (Error ''NOTION_TOKEN environment variable is required'' None), w1)
         else (Inr (), push_step ''environment_init'' w1))"

text \<open>
  \<open>buildFiles.sort().pop()\<close>: the default sort orders strings by their code units, so the
  element popped is the greatest one. \<open>str_less\<close> is that order.
\<close>

fun str_less :: "string \<Rightarrow> string \<Rightarrow> bool" where
  "str_less [] [] = False"
| "str_less [] (d # ds) = True"
| "str_less (c # cs) [] = False"
| "str_less (c # cs) (d # ds) =
     ((of_char c :: nat) < of_char d \<or> (c = d \<and> str_less cs ds))"

fun sort_pop :: "string list \<Rightarrow> string option" where
  "sort_pop [] = None"
| "sort_pop (x # xs) = Some (fold (\<lambda>s m. if str_less m s then s else m) xs x)"

text \<open>\<open>`${v}`\<close> for a value that is a string or \<open>null\<close>.\<close>

definition template_str :: "string option \<Rightarrow> string" where
  "template_str v = (case v of None \<Rightarrow> ''null'' | Some s \<Rightarrow> s)"

text \<open>
  \<open>loadBuildArtifacts\<close>. The \<open>try\<close> block around the directory listing also catches the
  error thrown for an empty list of build files, and rethrows the same message for both.
  \<open>parse\<close> is \<open>JSON.parse\<close> on the content of a build file.
\<close>

definition find_buildFile :: "'c node \<Rightarrow> string \<Rightarrow> string option \<Rightarrow> string option" where
  "find_buildFile nd distPath t =
     (case readdir nd distPath of
        Inl e \<Rightarrow> None
      | Inr files \<Rightarrow>
          sort_pop (filter (\<lambda>file. startsWith file (''template-'' @ template_str t)
                                   \<and> endsWith file ''.json'') files))"

definition loadBuildArtifacts ::
  "'c node \<Rightarrow> (string \<Rightarrow> js_error + build_package) \<Rightarrow> 'r world
    \<Rightarrow> (js_error + build_package) \<times> 'r world" where
  "loadBuildArtifacts nd parse w =
     (let distPath = path_join (cwd nd) ''dist''
      in case find_buildFile nd distPath (tier (deploymentState w)) of
           None \<Rightarrow>
             (Inl (Error ''Build artifacts directory not found. Run build-template.js first.''
                None), w)
         | Some buildFile \<Rightarrow>
             (case readFile nd (path_join distPath buildFile) of
                Inl e \<Rightarrow> (Inl e, w)
              | Inr buildContent \<Rightarrow>
                  (case parse buildContent of
                     Inl e \<Rightarrow> (Inl e, w)
                   | Inr buildPackage \<Rightarrow> (Inr buildPackage, push_step ''artifacts_loaded'' w))))"

text \<open>\<open>initializeNotionClient\<close>: the identity probe \<open>notion.users.me()\<close>.\<close>

definition initializeNotionClient :: "'r notion \<Rightarrow> 'r world \<Rightarrow> (js_error + unit) \<times> 'r world" where
  "initializeNotionClient nt w =
     (case call_users_me nt w of
        (Inl e, w1) \<Rightarrow> (Inl (Error (''Failed to connect to Notion: '' @ message e) None), w1)
      | (Inr user, w1) \<Rightarrow> (Inr (), push_step ''notion_connected'' w1))"

section \<open>Deployment script: databases\<close>

text \<open>
  \<open>convertPropertyToNotion\<close>, on a field as \<open>JSON.parse\<close> delivers it. Reading \<open>prop.type\<close>
  of \<open>null\<close> throws a \<open>TypeError\<close>; the \<open>switch\<close> compares with \<open>===\<close>, so only a string
  selects a case. In \<open>prop.options?.map(...)\<close> the \<open>?.\<close> skips the call for an \<open>options\<close> that
  is absent or \<open>null\<close>; any other value that is not an array has no function \<open>map\<close>, and
  the call throws a \<open>TypeError\<close>. The result is the object literal, as a JSON value.
\<close>

definition TypeError_null :: "string \<Rightarrow> js_error" where
  "TypeError_null member =
     Error (''Cannot read properties of null (reading '' @ [CHR 0x27] @ member
       @ [CHR 0x27] @ '')'') None"

definition select_property :: "json list \<Rightarrow> json" where
  "select_property opts = JObject [(''select'', JObject [(''options'', JArray opts)])]"

definition convertPropertyToNotion :: "json \<Rightarrow> js_error + json" where
  "convertPropertyToNotion prop =
     (if prop = JNull then Inl (TypeError_null ''type'')
      else if get_member prop ''type'' = Some (JString ''title'')
        then Inr (JObject [(''title'', JObject [])])
      else if get_member prop ''type'' = Some (JString ''select'') then
        (case get_member prop ''options'' of
           None \<Rightarrow> Inr (select_property [])
         | Some JNull \<Rightarrow> Inr (select_property [])
         | Some (JArray opts) \<Rightarrow>
             Inr (select_property
               (map (\<lambda>opt. JObject [(''name'', opt), (''color'', JString ''default'')]) opts))
         | Some other \<Rightarrow> Inl (Error ''prop.options?.map is not a function'' None))
      else if get_member prop ''type'' = Some (JString ''number'') then
        Inr (JObject [(''number'', JObject [(''format'',
          (case get_member prop ''format'' of
             None \<Rightarrow> JString ''number''
           | Some f \<Rightarrow> if truthy_json f then f else JString ''number''))])])
      else if get_member prop ''type'' = Some (JString ''date'')
        then Inr (JObject [(''date'', JObject [])])
      else if get_member prop ''type'' = Some (JString ''checkbox'')
        then Inr (JObject [(''checkbox'', JObject [])])
      else if get_member prop ''type'' = Some (JString ''text'')
        then Inr (JObject [(''rich_text'', JObject [])])
      else if get_member prop ''type'' = Some (JString ''url'')
        then Inr (JObject [(''url'', JObject [])])
      else if get_member prop ''type'' = Some (JString ''email'')
        then Inr (JObject [(''email'', JObject [])])
      else if get_member prop ''type'' = Some (JString ''phone'')
        then Inr (JObject [(''phone_number'', JObject [])])
      else Inr (JObject [(''rich_text'', JObject [])]))"

definition defaultProperties :: "(string \<times> json) list" where
  "defaultProperties =
     [(''Name'', JObject [(''title'', JObject [])]),
      (''Status'', select_property
         [JObject [(''name'', JString ''Planning''), (''color'', JString ''yellow'')],
          JObject [(''name'', JString ''In Progress''), (''color'', JString ''blue'')],
          JObject [(''name'', JString ''Completed''), (''color'', JString ''green'')],
          JObject [(''name'', JString ''On Hold''), (''color'', JString ''red'')]]),
      (''Created'', JObject [(''created_time'', JObject [])])]"

text \<open>
  The \<open>forEach\<close> of \<open>convertSchemaToNotionProperties\<close> over the entries that remain: a field
  whose translation throws ends it with that error.
\<close>

fun convert_entries ::
  "(string \<times> json) list \<Rightarrow> (string \<times> json) list \<Rightarrow> js_error + (string \<times> json) list" where
  "convert_entries [] props = Inr props"
| "convert_entries ((nm, prop) # rest) props =
     (case convertPropertyToNotion prop of
        Inl e \<Rightarrow> Inl e
      | Inr v \<Rightarrow> convert_entries rest (assign_member nm v props))"

text \<open>
  \<open>convertSchemaToNotionProperties\<close>, on a schema as \<open>JSON.parse\<close> delivers it. Reading
  \<open>schema.properties\<close> of \<open>null\<close> throws; \<open>if (schema.properties)\<close> tests the truthiness of
  the member, and an object is truthy, also the empty one. The result lists the members of
  the object \<open>properties\<close> that the function returns.
\<close>

definition convertSchemaToNotionProperties :: "json \<Rightarrow> js_error + (string \<times> json) list" where
  "convertSchemaToNotionProperties sch =
     (if sch = JNull then Inl (TypeError_null ''properties'')
      else case get_member sch ''properties'' of
             None \<Rightarrow> Inr (fold (\<lambda>(nm, v) props. assign_member nm v props) defaultProperties [])
           | Some ps \<Rightarrow>
               if truthy_json ps then convert_entries (object_entries ps) []
               else Inr (fold (\<lambda>(nm, v) props. assign_member nm v props)
                           defaultProperties []))"

text \<open>
  The schema of an entry of the build package, as the JSON value that the deployment hands
  to \<open>convertSchemaToNotionProperties\<close>: a member that is absent in the record is absent in
  the object.
\<close>

definition json_of_property :: "property \<Rightarrow> json" where
  "json_of_property p = JObject
     ((case type p of None \<Rightarrow> [] | Some t \<Rightarrow> [(''type'', JString t)])
      @ (case options p of None \<Rightarrow> [] | Some os \<Rightarrow> [(''options'', JArray (map JString os))])
      @ (case format p of None \<Rightarrow> [] | Some f \<Rightarrow> [(''format'', JString f)]))"

definition json_of_schema :: "schema \<Rightarrow> json" where
  "json_of_schema sch = JObject
     ((case title sch of None \<Rightarrow> [] | Some t \<Rightarrow> [(''title'', JString t)])
      @ (case properties sch of
           None \<Rightarrow> []
         | Some entries \<Rightarrow>
             [(''properties'', JObject (map (\<lambda>(nm, p). (nm, json_of_property p)) entries))]))"

text \<open>
  What the claim calls a well-formed property object, read as: an object with one member,
  named by a property type of Notion, whose value is an object (the configuration of that
  type). The type names are the ones that \<open>notionPropertySchema\<close> of the schema validation
  script lists.
\<close>

definition notionPropertyTypes :: "string list" where
  "notionPropertyTypes =
     [''title'', ''rich_text'', ''number'', ''select'', ''multi_select'', ''date'', ''people'',
      ''files'', ''checkbox'', ''url'', ''email'', ''phone_number'', ''formula'', ''relation'',
      ''rollup'', ''created_time'', ''created_by'', ''last_edited_time'', ''last_edited_by'']"

fun well_formed_property :: "json \<Rightarrow> bool" where
  "well_formed_property (JObject [(k, JObject cfg)]) = (k \<in> set notionPropertyTypes)"
| "well_formed_property v = False"

definition getOrCreateParentPage :: "'r notion \<Rightarrow> string \<Rightarrow> 'r world \<Rightarrow> (js_error + string) \<times> 'r world" where
  "getOrCreateParentPage nt clientName w =
     (case call_search nt (clientName @ '' Construction Management'') w of
        (Inl e, w1) \<Rightarrow> (Inl e, w1)
      | (Inr results, w1) \<Rightarrow>
          (case results of
             first # _ \<Rightarrow> (Inr first, w1)
           | [] \<Rightarrow>
               call_pages_create nt
                 \<lparr>parent = Workspace,
                  page_properties = Title_only (clientName @ '' Construction Management''),
                  children = None\<rparr> w1))"

definition createDatabase ::
  "'r notion \<Rightarrow> schema_entry \<Rightarrow> string \<Rightarrow> 'r world \<Rightarrow> (js_error + string) \<times> 'r world" where
  "createDatabase nt dbSchema clientName w =
     (case convertSchemaToNotionProperties (json_of_schema (schema dbSchema)) of
        Inl e \<Rightarrow> (Inl e, w)
      | Inr notionProperties \<Rightarrow>
          (case getOrCreateParentPage nt clientName w of
             (Inl e, w1) \<Rightarrow> (Inl e, w1)
           | (Inr page_id, w1) \<Rightarrow>
               call_databases_create nt
                 \<lparr>db_parent = Page_id page_id,
                  db_title = clientName @ '' - ''
                    @ or_else (title (schema dbSchema)) (name dbSchema),
                  db_properties = notionProperties\<rparr> w1))"

text \<open>
  The loop of \<open>deployPhase1_Databases\<close> over the schemas that remain; \<open>created\<close> is the
  local \<open>createdDatabases\<close>.
\<close>

fun databases_loop ::
  "'r notion \<Rightarrow> string \<Rightarrow> schema_entry list \<Rightarrow> string list \<Rightarrow> 'r world
    \<Rightarrow> string list \<times> 'r world" where
  "databases_loop nt clientName [] created w = (created, w)"
| "databases_loop nt clientName (dbSchema # rest) created w =
     (case createDatabase nt dbSchema clientName w of
        (Inr database, w1) \<Rightarrow>
          databases_loop nt clientName rest (created @ [database])
            (sleep 1000
              (push_resource
                \<lparr>res_type = ''database'', res_name = Some (name dbSchema), res_id = database\<rparr>
                w1))
      | (Inl e, w1) \<Rightarrow>
          databases_loop nt clientName rest created
            (push_error
              \<lparr>phase = ''databases'', resource = name dbSchema, error = message e\<rparr> w1))"

definition deployPhase1_Databases :: "'r notion \<Rightarrow> build_package \<Rightarrow> 'r world \<Rightarrow> string list \<times> 'r world" where
  "deployPhase1_Databases nt buildPackage w =
     (let dbs = (case schemas buildPackage of None \<Rightarrow> [] | Some l \<Rightarrow> l)
      in case databases_loop nt (bp_client buildPackage) dbs [] w of
           (createdDatabases, w1) \<Rightarrow> (createdDatabases, push_step ''databases_deployed'' w1))"

section \<open>Deployment script: the later phases\<close>

definition deployPhase2_Views :: "'r world \<Rightarrow> 'r world" where
  "deployPhase2_Views w = push_step ''views_deployed'' w"

definition convertRecordToNotionProperties :: "sample_record \<Rightarrow> (string \<times> page_value) list" where
  "convertRecordToNotionProperties record =
     fold (\<lambda>(key, v) props.
        if key = ''title'' \<or> key = ''name'' then AList.update ''Name'' (Title_value v) props
        else (case v of
                JString str \<Rightarrow>
                  if str \<in> set [''Planning'', ''In Progress'', ''Completed'', ''Active'']
                  then AList.update ''Status'' (Select_value str) props
                  else AList.update key (Rich_text_value v) props
              | JNumber n \<Rightarrow> AList.update key (Number_value n) props
              | _ \<Rightarrow> AList.update key (Rich_text_value v) props))
       record []"

text \<open>
  The loop of \<open>addSampleDataToDatabase\<close> over \<open>data.slice(0, 5)\<close>: a page that cannot be
  created is logged and the loop goes on.
\<close>

fun records_loop :: "'r notion \<Rightarrow> created_resource \<Rightarrow> sample_record list \<Rightarrow> 'r world \<Rightarrow> 'r world" where
  "records_loop nt database [] w = w"
| "records_loop nt database (record # rest) w =
     (case call_pages_create nt
             \<lparr>parent = Database_id (res_id database),
              page_properties = Record_properties (convertRecordToNotionProperties record),
              children = None\<rparr> w of
        (res, w1) \<Rightarrow> records_loop nt database rest w1)"

text \<open>
  \<open>sampleData[database.name]\<close>: the key of a resource without a \<open>name\<close> is the string
  \<open>undefined\<close>. The entries of the sample data are arrays, so \<open>Array.isArray\<close> holds for
  every entry that is there.
\<close>

definition addSampleDataToDatabase ::
  "'r notion \<Rightarrow> created_resource \<Rightarrow> (string \<times> sample_record list) list \<Rightarrow> 'r world \<Rightarrow> 'r world" where
  "addSampleDataToDatabase nt database sample w =
     (let dataKey = (case res_name database of None \<Rightarrow> ''undefined'' | Some n \<Rightarrow> n)
      in case map_of sample dataKey of
           None \<Rightarrow> w
         | Some data \<Rightarrow> records_loop nt database (take 5 data) w)"

fun sample_loop ::
  "'r notion \<Rightarrow> (string \<times> sample_record list) list \<Rightarrow> created_resource list \<Rightarrow> 'r world \<Rightarrow> 'r world" where
  "sample_loop nt sample [] w = w"
| "sample_loop nt sample (res # rest) w =
     (if res_type res = ''database''
      then sample_loop nt sample rest (sleep 500 (addSampleDataToDatabase nt res sample w))
      else sample_loop nt sample rest w)"

definition deployPhase3_SampleData :: "'c node \<Rightarrow> 'r notion \<Rightarrow> build_package \<Rightarrow> 'r world \<Rightarrow> 'r world" where
  "deployPhase3_SampleData nd nt buildPackage w =
     (case sampleData buildPackage of
        None \<Rightarrow> w
      | Some sample \<Rightarrow>
          if env nd ''INCLUDE_SAMPLE_DATA'' = Some ''false'' then w
          else push_step ''sample_data_deployed''
                 (sample_loop nt sample (createdResources (deploymentState w)) w))"

definition deployPhase4_Integrations :: "'r world \<Rightarrow> 'r world" where
  "deployPhase4_Integrations w = push_step ''integrations_deployed'' w"

definition createDeploymentSummaryPage ::
  "'c node \<Rightarrow> 'r notion \<Rightarrow> build_package \<Rightarrow> 'r world \<Rightarrow> (js_error + unit) \<times> 'r world" where
  "createDeploymentSummaryPage nd nt buildPackage w =
     (case Date_now nd w of
        (today, w1) \<Rightarrow>
          (let summaryContent =
                 [Heading_1 (bp_client buildPackage @ '' Construction Template''),
                  Paragraph (''Deployed: '' @ toLocaleDateString nd today),
                  Paragraph (''Tier: '' @ bp_tier buildPackage)]
           in case call_pages_create nt
                     \<lparr>parent = Workspace,
                      page_properties =
                        Title_only (bp_client buildPackage @ '' - Deployment Summary''),
                      children = Some summaryContent\<rparr> w1 of
                (Inl e, w2) \<Rightarrow> (Inl e, w2)
              | (Inr page, w2) \<Rightarrow>
                  (Inr (), push_resource
                     \<lparr>res_type = ''summary_page'', res_name = None, res_id = page\<rparr> w2)))"

record build_info =
  bi_buildId :: string
  bi_version :: "string option"
  bi_tier :: string
  bi_client :: string

text \<open>
  The metadata written by \<open>saveDeploymentMetadata\<close>: the members of \<open>deploymentState\<close>, the
  four members of the build package, and the duration. \<open>Date.now() - startTime\<close> is an
  integer (a \<open>null\<close> start time counts as 0).
\<close>

record deployment_metadata =
  md_state :: deployment_state
  md_buildPackage :: build_info
  md_deploymentTime :: int

definition since_start :: "nat \<Rightarrow> deployment_state \<Rightarrow> int" where
  "since_start t ds = int t - (case startTime ds of None \<Rightarrow> 0 | Some t0 \<Rightarrow> int t0)"

definition saveDeploymentMetadata ::
  "deployment_metadata node \<Rightarrow> build_package \<Rightarrow> 'r world \<Rightarrow> (js_error + unit) \<times> 'r world" where
  "saveDeploymentMetadata nd buildPackage w =
     (case Date_now nd w of
        (t1, w1) \<Rightarrow>
          (let md = \<lparr>md_state = deploymentState w1,
                     md_buildPackage = \<lparr>bi_buildId = buildId buildPackage,
                       bi_version = version buildPackage, bi_tier = bp_tier buildPackage,
                       bi_client = bp_client buildPackage\<rparr>,
                     md_deploymentTime = since_start t1 (deploymentState w1)\<rparr>
           in case Date_now nd w1 of
                (t2, w2) \<Rightarrow>
                  write_file nd (path_join ''dist'' (''deployment-'' @ show_nat t2 @ ''.json''))
                    md w2))"

definition deployPhase5_Finalization ::
  "deployment_metadata node \<Rightarrow> 'r notion \<Rightarrow> build_package \<Rightarrow> 'r world
    \<Rightarrow> (js_error + unit) \<times> 'r world" where
  "deployPhase5_Finalization nd nt buildPackage w =
     (case createDeploymentSummaryPage nd nt buildPackage w of
        (Inl e, w1) \<Rightarrow> (Inl e, w1)
      | (Inr u, w1) \<Rightarrow>
          (case saveDeploymentMetadata nd buildPackage w1 of
             (Inl e, w2) \<Rightarrow> (Inl e, w2)
           | (Inr u2, w2) \<Rightarrow> (Inr (), push_step ''deployment_finalized'' w2)))"

record report_summary =
  sum_databases :: nat
  sum_pages :: nat
  sum_timestamp :: string

record deployment_report =
  success :: bool
  rep_client :: string
  rep_tier :: string
  deploymentTime :: int
  rep_completedSteps :: nat
  rep_createdResources :: nat
  rep_errors :: nat
  summary :: report_summary

definition generateDeploymentReport ::
  "'c node \<Rightarrow> build_package \<Rightarrow> 'r world \<Rightarrow> deployment_report \<times> 'r world" where
  "generateDeploymentReport nd buildPackage w =
     (case Date_now nd w of
        (t1, w1) \<Rightarrow>
          (case Date_now nd w1 of
             (t2, w2) \<Rightarrow>
               (let ds = deploymentState w2
                in (\<lparr>success = True,
                     rep_client = bp_client buildPackage,
                     rep_tier = bp_tier buildPackage,
                     deploymentTime = since_start t1 ds,
                     rep_completedSteps = length (completedSteps ds),
                     rep_createdResources = length (createdResources ds),
                     rep_errors = length (errors ds),
                     summary = \<lparr>
                       sum_databases = length (filter (\<lambda>r. res_type r = ''database'')
                         (createdResources ds)),
                       sum_pages = length (filter (\<lambda>r. res_type r = ''page'')
                         (createdResources ds)),
                       sum_timestamp = toISOString nd t2\<rparr>\<rparr>, w2))))"

text \<open>
  \<open>cleanupFailedDeployment\<close> prints the created resources and deletes nothing: it leaves
  the state and the workspace as they are.
\<close>

definition cleanupFailedDeployment :: "'r world \<Rightarrow> 'r world" where
  "cleanupFailedDeployment w = w"

section \<open>Deployment script: the run\<close>

text \<open>
  The body of the \<open>try\<close> block of \<open>deployConstructionTemplate\<close>: a step that throws ends
  the run with its error; the last clock reading is the one of the closing log line.
\<close>

definition deploy_steps ::
  "deployment_metadata node \<Rightarrow> (string \<Rightarrow> js_error + build_package) \<Rightarrow> 'r notion \<Rightarrow> 'r world
    \<Rightarrow> (js_error + deployment_report) \<times> 'r world" where
  "deploy_steps nd parse nt w =
     (case initializeEnvironment nd w of
        (Inl e, w1) \<Rightarrow> (Inl e, w1)
      | (Inr u, w1) \<Rightarrow>
          (case loadBuildArtifacts nd parse w1 of
             (Inl e, w2) \<Rightarrow> (Inl e, w2)
           | (Inr buildPackage, w2) \<Rightarrow>
               (case initializeNotionClient nt w2 of
                  (Inl e, w3) \<Rightarrow> (Inl e, w3)
                | (Inr u3, w3) \<Rightarrow>
                    (case deployPhase1_Databases nt buildPackage w3 of
                       (createdDatabases, w4) \<Rightarrow>
                         (let w5 = deployPhase2_Views w4;
                              w6 = deployPhase3_SampleData nd nt buildPackage w5;
                              w7 = deployPhase4_Integrations w6
                          in case deployPhase5_Finalization nd nt buildPackage w7 of
                               (Inl e, w8) \<Rightarrow> (Inl e, w8)
                             | (Inr u8, w8) \<Rightarrow>
                                 (case generateDeploymentReport nd buildPackage w8 of
                                    (report, w9) \<Rightarrow>
                                      (Inr report, snd (Date_now nd w9))))))))"

definition deployConstructionTemplate ::
  "deployment_metadata node \<Rightarrow> (string \<Rightarrow> js_error + build_package) \<Rightarrow> 'r notion \<Rightarrow> 'r world
    \<Rightarrow> (js_error + deployment_report) \<times> 'r world" where
  "deployConstructionTemplate nd parse nt w =
     (case Date_now nd w of
        (t0, w0) \<Rightarrow>
          (case deploy_steps nd parse nt
                  (w0\<lparr>deploymentState := (deploymentState w0)\<lparr>startTime := Some t0\<rparr>\<rparr>) of
             (Inl e, w1) \<Rightarrow> (Inl e, cleanupFailedDeployment w1)
           | (Inr report, w1) \<Rightarrow> (Inr report, w1)))"

section \<open>Deployment script: the outcomes of the creation attempts\<close>

text \<open>
  The outcome of each \<open>createDatabase\<close> of the first phase, in order: an error or the
  \<open>id\<close> of the new database. An attempt reads and changes the workspace only, so the
  outcomes are computed from the workspace state alone (\<open>bare r\<close> is a state of the run
  with workspace \<open>r\<close> and nothing else). \<open>error_records\<close> is the record of each schema whose
  attempt failed and \<open>resource_records\<close> the record of each schema whose attempt succeeded;
  \<open>is_search\<close> recognises the first remote call of an attempt.
\<close>

definition bare :: "'r \<Rightarrow> 'r world" where
  "bare r = \<lparr>ticks = 0, trace = [], deploymentState = initial_deploymentState, remote = r\<rparr>"

fun create_outcomes :: "'r notion \<Rightarrow> string \<Rightarrow> schema_entry list \<Rightarrow> 'r \<Rightarrow> (js_error + string) list" where
  "create_outcomes nt clientName [] r = []"
| "create_outcomes nt clientName (dbSchema # rest) r =
     (case createDatabase nt dbSchema clientName (bare r) of
        (res, w1) \<Rightarrow> res # create_outcomes nt clientName rest (remote w1))"

fun error_records :: "schema_entry list \<Rightarrow> (js_error + string) list \<Rightarrow> deployment_error list" where
  "error_records (s # ss) (Inl e # outs) =
     \<lparr>phase = ''databases'', resource = name s, error = message e\<rparr> # error_records ss outs"
| "error_records (s # ss) (Inr i # outs) = error_records ss outs"
| "error_records ss outs = []"

fun resource_records :: "schema_entry list \<Rightarrow> (js_error + string) list \<Rightarrow> created_resource list" where
  "resource_records (s # ss) (Inr i # outs) =
     \<lparr>res_type = ''database'', res_name = Some (name s), res_id = i\<rparr> # resource_records ss outs"
| "resource_records (s # ss) (Inl e # outs) = resource_records ss outs"
| "resource_records ss outs = []"

fun is_search :: "event \<Rightarrow> bool" where
  "is_search (Call_search q) = True"
| "is_search ev = False"

section \<open>Concrete runs\<close>

text \<open>
  A runtime for the builder: the schema directory holds \<open>projects.json\<close>,
  \<open>inventory.json\<close> and a text file; every file reads (its content is its path here) and
  parses, and every directory and file can be written.
\<close>

definition build_node :: "build_output node" where
  "build_node = \<lparr>
     env = (\<lambda>k. None),
     cwd = ''/app'',
     dirname = ''/app/scripts'',
     now = (\<lambda>k. 1000 + k),
     toISOString = (\<lambda>t. ''2024-01-01T00:00:00.000Z''),
     toLocaleDateString = (\<lambda>t. ''1/1/2024''),
     mkdir = (\<lambda>p. None),
     readdir = (\<lambda>p. if p = ''/app/scripts/../src/schemas/databases''
                      then Inr [''projects.json'', ''notes.txt'', ''inventory.json'']
                      else Inl (Error ''ENOENT: no such file or directory'' (Some ''ENOENT''))),
     readFile = (\<lambda>p. Inr p),
     writeFile = (\<lambda>p c. None)\<rparr>"

definition parse_schema :: "string \<Rightarrow> js_error + schema" where
  "parse_schema content = Inr \<lparr>title = Some content, properties = None\<rparr>"

text \<open>
  A build package with three schemas, and a runtime for the deployment that finds it:
  the client name and the token are set, the tier is not.
\<close>

definition three_schemas :: "schema_entry list" where
  "three_schemas =
     [\<lparr>name = ''projects'', schema = \<lparr>title = Some ''Projects'', properties = None\<rparr>,
        se_tier = ''professional''\<rparr>,
      \<lparr>name = ''tasks'', schema = \<lparr>title = None, properties = None\<rparr>,
        se_tier = ''professional''\<rparr>,
      \<lparr>name = ''clients'', schema = \<lparr>title = Some ''Clients'', properties = Some []\<rparr>,
        se_tier = ''professional''\<rparr>]"

definition some_package :: build_package where
  "some_package = \<lparr>
     buildId = ''build-1'',
     timestamp = ''2024-01-01T00:00:00.000Z'',
     bp_client = ''Acme Co'',
     bp_tier = ''professional'',
     version = Some ''1.0.0'',
     config = \<lparr>cfg_client = ''Acme Co'', cfg_tier = ''professional'',
       cfg_includeSampleData = False,
       customizations = \<lparr>
         branding = \<lparr>companyName = ''Acme Co'', logo = None,
           colorScheme = ''construction-blue''\<rparr>,
         settings = \<lparr>timezone = ''UTC'', dateFormat = ''MM/DD/YYYY'', currency = ''USD'',
           measurementUnit = ''imperial''\<rparr>\<rparr>,
       cfg_features = [], cfg_databases = [], cfg_views = []\<rparr>,
     schemas = Some three_schemas,
     bp_views = Some [],
     sampleData = None,
     integrations = [],
     documentation = \<lparr>doc_setup = [], doc_features = [], doc_api = [],
       troubleshooting = []\<rparr>,
     metadata = \<lparr>buildDuration = 5, includedFeatures = 0, databaseCount = 3,
       viewCount = 0\<rparr>\<rparr>"

definition deploy_node :: "deployment_metadata node" where
  "deploy_node = \<lparr>
     env = (\<lambda>k. if k = ''CLIENT_NAME'' then Some ''Acme Co''
                 else if k = ''NOTION_TOKEN'' then Some ''secret_token'' else None),
     cwd = ''/app'',
     dirname = ''/app/scripts'',
     now = (\<lambda>k. 1000 + k),
     toISOString = (\<lambda>t. ''2024-01-01T00:00:00.000Z''),
     toLocaleDateString = (\<lambda>t. ''1/1/2024''),
     mkdir = (\<lambda>p. None),
     readdir = (\<lambda>p. if p = ''/app/dist''
                      then Inr [''template-professional-build-1.json'', ''notes.txt'']
                      else Inl (Error ''ENOENT: no such file or directory'' (Some ''ENOENT''))),
     readFile = (\<lambda>p. Inr p),
     writeFile = (\<lambda>p c. None)\<rparr>"

definition parse_package :: "string \<Rightarrow> js_error + build_package" where
  "parse_package content = Inr some_package"

text \<open>
  Two workspaces whose state counts the calls of \<open>databases.create\<close>. In the first the
  identity probe succeeds, the parent page is found, and the second database creation is
  rejected; in the other the identity probe is rejected.
\<close>

definition second_fails :: "nat notion" where
  "second_fails = \<lparr>
     users_me = (\<lambda>r. (Inr ''deploy-bot'', r)),
     search = (\<lambda>q r. (Inr [''parent-page''], r)),
     pages_create = (\<lambda>req r. (Inr ''summary-page'', r)),
     databases_create = (\<lambda>req r.
       (if r = 1 then Inl (Error ''validation_error'' None) else Inr (''db-'' @ show_nat r),
        Suc r))\<rparr>"

definition probe_fails :: "nat notion" where
  "probe_fails = second_fails\<lparr>users_me := (\<lambda>r. (Inl (Error ''unauthorized'' None), r))\<rparr>"

definition fresh_world :: "nat world" where
  "fresh_world = \<lparr>ticks = 0, trace = [], deploymentState = initial_deploymentState,
     remote = 0\<rparr>"

section \<open>Properties of the tier catalogue\<close>

text \<open>
  C8. In the static catalogue every database name of the starter tier is a database name of
  the professional tier, and every database name of the professional tier is one of the
  enterprise tier.
\<close>

theorem tier_catalog_monotone:
  "templateConfigs ''starter'' = Some starter
   \<and> templateConfigs ''professional'' = Some professional
   \<and> templateConfigs ''enterprise'' = Some enterprise
   \<and> set (databases starter) \<subseteq> set (databases professional)
   \<and> set (databases professional) \<subseteq> set (databases enterprise)"
  by (simp add: templateConfigs_def starter_def professional_def enterprise_def)

section \<open>Properties of view-kind inference\<close>

lemma startsWith_iff: "startsWith s p = (\<exists>b. s = p @ b)"
  unfolding startsWith_def
  by (metis append_eq_conv_conj append_take_drop_id)

lemma str_includes_contains: "str_includes s p = contains s p"
proof (induction s)
  case Nil
  then show ?case by (auto simp: contains_def)
next
  case (Cons c cs)
  show ?case
  proof
    assume "str_includes (c # cs) p"
    then consider "startsWith (c # cs) p" | "str_includes cs p" by auto
    then show "contains (c # cs) p"
    proof cases
      case 1
      then obtain b where "c # cs = p @ b" by (auto simp: startsWith_iff)
      then have "c # cs = [] @ p @ b" by simp
      then show ?thesis unfolding contains_def by blast
    next
      case 2
      then obtain a b where "cs = a @ p @ b" using Cons.IH by (auto simp: contains_def)
      then have "c # cs = (c # a) @ p @ b" by simp
      then show ?thesis unfolding contains_def by blast
    qed
  next
    assume "contains (c # cs) p"
    then obtain a b where ab: "c # cs = a @ p @ b" unfolding contains_def by blast
    show "str_includes (c # cs) p"
    proof (cases a)
      case Nil
      then have "startsWith (c # cs) p" using ab by (auto simp: startsWith_iff)
      then show ?thesis by simp
    next
      case (Cons x a')
      then have "cs = a' @ p @ b" using ab by simp
      then have "str_includes cs p" using Cons.IH unfolding contains_def by blast
      then show ?thesis by simp
    qed
  qed
qed

text \<open>
  C5 (as amended). \<open>getViewType\<close> returns one of the four strings \<open>kanban\<close> (the board
  kind), \<open>timeline\<close>, \<open>table\<close> and \<open>calendar\<close> for every view name, and the rules apply in
  this order, the first that matches deciding: a name that contains \<open>kanban\<close> gives
  \<open>kanban\<close>; else one that contains \<open>timeline\<close> or \<open>schedule\<close> gives \<open>timeline\<close>; else one
  that contains \<open>dashboard\<close> or \<open>overview\<close> gives \<open>table\<close>; else one that contains
  \<open>calendar\<close> gives \<open>calendar\<close>; every other name gives \<open>table\<close>.
\<close>

theorem getViewType_rules:
  "getViewType v \<in> {''kanban'', ''timeline'', ''table'', ''calendar''}
   \<and> (contains v ''kanban'' \<longrightarrow> getViewType v = ''kanban'')
   \<and> (\<not> contains v ''kanban'' \<and> (contains v ''timeline'' \<or> contains v ''schedule'')
        \<longrightarrow> getViewType v = ''timeline'')
   \<and> (\<not> contains v ''kanban'' \<and> \<not> contains v ''timeline'' \<and> \<not> contains v ''schedule''
        \<and> (contains v ''dashboard'' \<or> contains v ''overview'')
        \<longrightarrow> getViewType v = ''table'')
   \<and> (\<not> contains v ''kanban'' \<and> \<not> contains v ''timeline'' \<and> \<not> contains v ''schedule''
        \<and> \<not> contains v ''dashboard'' \<and> \<not> contains v ''overview'' \<and> contains v ''calendar''
        \<longrightarrow> getViewType v = ''calendar'')
   \<and> (\<not> contains v ''kanban'' \<and> \<not> contains v ''timeline'' \<and> \<not> contains v ''schedule''
        \<and> \<not> contains v ''dashboard'' \<and> \<not> contains v ''overview'' \<and> \<not> contains v ''calendar''
        \<longrightarrow> getViewType v = ''table'')"
  unfolding getViewType_def str_includes_contains by simp


lemma contains_eval:
  "contains ''task-kanban'' ''kanban''"
  "\<not> contains ''project-timeline'' ''kanban'' \<and>
     (contains ''project-timeline'' ''timeline'' \<or> contains ''project-timeline'' ''schedule'')"
  "\<not> contains ''client-overview'' ''kanban'' \<and> \<not> contains ''client-overview'' ''timeline''
     \<and> \<not> contains ''client-overview'' ''schedule''
     \<and> (contains ''client-overview'' ''dashboard'' \<or> contains ''client-overview'' ''overview'')"
  "\<not> contains ''team-calendar'' ''kanban'' \<and> \<not> contains ''team-calendar'' ''timeline''
     \<and> \<not> contains ''team-calendar'' ''schedule'' \<and> \<not> contains ''team-calendar'' ''dashboard''
     \<and> \<not> contains ''team-calendar'' ''overview'' \<and> contains ''team-calendar'' ''calendar''"
  "\<not> contains ''client-portal'' ''kanban'' \<and> \<not> contains ''client-portal'' ''timeline''
     \<and> \<not> contains ''client-portal'' ''schedule'' \<and> \<not> contains ''client-portal'' ''dashboard''
     \<and> \<not> contains ''client-portal'' ''overview'' \<and> \<not> contains ''client-portal'' ''calendar''"
  unfolding str_includes_contains [symmetric] by (simp_all add: startsWith_def)

theorem getViewType_rules_witness:
  "contains ''task-kanban'' ''kanban'' \<and> getViewType ''task-kanban'' = ''kanban''
   \<and> getViewType ''project-timeline'' = ''timeline''
   \<and> getViewType ''client-overview'' = ''table''
   \<and> getViewType ''team-calendar'' = ''calendar''
   \<and> getViewType ''client-portal'' = ''table''"
proof -
  note r = getViewType_rules [THEN conjunct2]
  have 1: "getViewType ''task-kanban'' = ''kanban''"
    by (rule mp [OF r [THEN conjunct1] contains_eval(1)])
  have 2: "getViewType ''project-timeline'' = ''timeline''"
    by (rule mp [OF r [THEN conjunct2, THEN conjunct1] contains_eval(2)])
  have 3: "getViewType ''client-overview'' = ''table''"
    by (rule mp [OF r [THEN conjunct2, THEN conjunct2, THEN conjunct1] contains_eval(3)])
  have 4: "getViewType ''team-calendar'' = ''calendar''"
    by (rule mp [OF r [THEN conjunct2, THEN conjunct2, THEN conjunct2, THEN conjunct1]
          contains_eval(4)])
  have 5: "getViewType ''client-portal'' = ''table''"
    by (rule mp [OF r [THEN conjunct2, THEN conjunct2, THEN conjunct2, THEN conjunct2]
          contains_eval(5)])
  from contains_eval(1) 1 2 3 4 5 show ?thesis by (intro conjI)
qed

text \<open>
  C5 as stated fails: the name \<open>team-calendar\<close> contains none of \<open>kanban\<close>, \<open>timeline\<close>,
  \<open>schedule\<close>, \<open>dashboard\<close> and \<open>overview\<close>, and its kind is \<open>calendar\<close>, not \<open>table\<close>.
\<close>

theorem getViewType_default_counterexample:
  "\<not> contains ''team-calendar'' ''kanban'' \<and> \<not> contains ''team-calendar'' ''timeline''
   \<and> \<not> contains ''team-calendar'' ''schedule'' \<and> \<not> contains ''team-calendar'' ''dashboard''
   \<and> \<not> contains ''team-calendar'' ''overview''
   \<and> getViewType ''team-calendar'' = ''calendar''
   \<and> getViewType ''team-calendar'' \<noteq> ''table''"
  unfolding str_includes_contains [symmetric]
  by (simp add: getViewType_def startsWith_def)

section \<open>Properties of the cost estimator\<close>

lemma ceil_div3_int: "\<lceil>real (n::nat) / 3\<rceil> = int ((n + 2) div 3)"
proof -
  have "\<lceil>real n / 3\<rceil> = \<lceil>real_of_int (int n) / real_of_int 3\<rceil>" by simp
  also have "\<dots> = - ((- int n) div 3)" by (simp only: ceiling_divide_eq_div)
  also have "\<dots> = (int n + 2) div 3" by presburger
  finally show ?thesis by (simp add: zdiv_int)
qed

lemma ceil_div3: "nat \<lceil>real (n::nat) / 3\<rceil> = (n + 2) div 3"
  by (simp only: ceil_div3_int nat_int)

lemma foldl_plus_sum_list: "foldl (\<lambda>sum count. sum + count) a xs = a + sum_list (xs :: nat list)"
  by (induction xs arbitrary: a) simp_all

lemma tierCosts_known:
  "t \<in> {''starter'', ''professional'', ''enterprise''} \<Longrightarrow> \<exists>c. tierCosts t = Some c"
  by (auto simp: tierCosts_def)

text \<open>
  C6. For each of the tiers starter, professional and enterprise and every value of the
  sample-data option, \<open>estimateDeploymentCost\<close> returns an estimate whose \<open>totalApiCalls\<close>
  is 2 per database, 1 per view, 1 per property, 3 per integration and 2 per automation
  of the tier's row of \<open>tierCosts\<close>, plus 1 per sample record unless the option is \<open>false\<close>,
  plus 20; and whose \<open>estimatedTime.seconds\<close> is the ceiling of \<open>totalApiCalls / 3\<close>, that
  is the least number of seconds \<open>n\<close> with \<open>totalApiCalls \<le> 3 n\<close>.
\<close>

theorem estimate_formula:
  assumes "t \<in> {''starter'', ''professional'', ''enterprise''}"
  shows "\<exists>c r. tierCosts t = Some c \<and> estimateDeploymentCost t s = Inr r
    \<and> totalApiCalls r =
        2 * tc_databases c + 1 * tc_views c + 1 * tc_properties c + 3 * tc_integrations c
        + 2 * tc_automations c
        + (if s \<noteq> Some False then 1 * sum_list (map snd (tc_sampleData c)) else 0) + 20
    \<and> int (seconds (estimatedTime r)) = \<lceil>real (totalApiCalls r) / 3\<rceil>
    \<and> totalApiCalls r \<le> 3 * seconds (estimatedTime r)
    \<and> 3 * seconds (estimatedTime r) < totalApiCalls r + 3"
proof -
  from assms obtain c where c: "tierCosts t = Some c" using tierCosts_known by blast
  obtain r where r: "estimateDeploymentCost t s = Inr r"
    by (simp add: estimateDeploymentCost_def c Let_def)
  have tot: "totalApiCalls r =
        2 * tc_databases c + 1 * tc_views c + 1 * tc_properties c + 3 * tc_integrations c
        + 2 * tc_automations c
        + (if s \<noteq> Some False then 1 * sum_list (map snd (tc_sampleData c)) else 0) + 20"
    using r by (auto simp: estimateDeploymentCost_def c Let_def apiWeights_def foldl_plus_sum_list)
  have sec: "seconds (estimatedTime r) = nat \<lceil>real (totalApiCalls r) / 3\<rceil>"
    using r by (auto simp: estimateDeploymentCost_def c Let_def)
  have sec_int: "int (seconds (estimatedTime r)) = \<lceil>real (totalApiCalls r) / 3\<rceil>"
    unfolding sec by (simp only: ceil_div3_int nat_int)
  have sec_div: "seconds (estimatedTime r) = (totalApiCalls r + 2) div 3"
    unfolding sec by (rule ceil_div3)
  have b1: "totalApiCalls r \<le> 3 * seconds (estimatedTime r)" unfolding sec_div by presburger
  have b2: "3 * seconds (estimatedTime r) < totalApiCalls r + 3" unfolding sec_div by presburger
  from c r tot sec_int b1 b2 show ?thesis by blast
qed


theorem estimate_formula_witness:
  "''starter'' \<in> {''starter'', ''professional'', ''enterprise''}
   \<and> (\<exists>r. estimateDeploymentCost ''starter'' (Some True) = Inr r
         \<and> totalApiCalls r = 2 * 8 + 15 + 40 + 3 * 0 + 2 * 5 + (3 + 25 + 5 + 20) + 20
         \<and> seconds (estimatedTime r) = 52)"
proof -
  have h: "''starter'' \<in> {''starter'', ''professional'', ''enterprise''}" by simp
  from estimate_formula [OF h, of "Some True"] obtain c r where
    c: "tierCosts ''starter'' = Some c" and
    r: "estimateDeploymentCost ''starter'' (Some True) = Inr r" and
    tot: "totalApiCalls r =
        2 * tc_databases c + 1 * tc_views c + 1 * tc_properties c + 3 * tc_integrations c
        + 2 * tc_automations c
        + (if Some True \<noteq> Some False then 1 * sum_list (map snd (tc_sampleData c)) else 0) + 20"
    and b1: "totalApiCalls r \<le> 3 * seconds (estimatedTime r)"
    and b2: "3 * seconds (estimatedTime r) < totalApiCalls r + 3"
    by blast
  from c have c_eq: "c = \<lparr>tc_databases = 8, tc_views = 15, tc_pages = 50, tc_properties = 40,
        tc_integrations = 0, tc_automations = 5,
        tc_sampleData = [(''projects'', 3), (''tasks'', 25), (''clients'', 5),
          (''materials'', 20)]\<rparr>"
    by (simp add: tierCosts_def)
  have t154: "totalApiCalls r = 154" unfolding tot c_eq by simp
  have s52: "seconds (estimatedTime r) = 52" using b1 b2 unfolding t154 by arith
  from h r t154 s52 show ?thesis by simp
qed

text \<open>
  C7. With the sample data included, the totals are 154 for starter, 478 for professional
  and 1045 for enterprise: strictly increasing in the tier.
\<close>

theorem estimate_strictly_increasing:
  "\<exists>s p e. estimateDeploymentCost ''starter'' (Some True) = Inr s
     \<and> estimateDeploymentCost ''professional'' (Some True) = Inr p
     \<and> estimateDeploymentCost ''enterprise'' (Some True) = Inr e
     \<and> totalApiCalls s = 154 \<and> totalApiCalls p = 478 \<and> totalApiCalls e = 1045
     \<and> totalApiCalls e > totalApiCalls p \<and> totalApiCalls p > totalApiCalls s"
proof -
  have s: "\<exists>s. estimateDeploymentCost ''starter'' (Some True) = Inr s \<and> totalApiCalls s = 154"
    by (simp add: estimateDeploymentCost_def tierCosts_def apiWeights_def Let_def)
  have p: "\<exists>p. estimateDeploymentCost ''professional'' (Some True) = Inr p
      \<and> totalApiCalls p = 478"
    by (simp add: estimateDeploymentCost_def tierCosts_def apiWeights_def Let_def)
  have e: "\<exists>e. estimateDeploymentCost ''enterprise'' (Some True) = Inr e
      \<and> totalApiCalls e = 1045"
    by (simp add: estimateDeploymentCost_def tierCosts_def apiWeights_def Let_def)
  from s p e show ?thesis by force
qed

section \<open>Properties of the translation to Notion properties\<close>

text \<open>
  When the translation of a field throws, what it returns otherwise, and what the
  assignments of \<open>convertSchemaToNotionProperties\<close> leave in the result.
\<close>

lemma update_fresh: "k \<notin> fst ` set al \<Longrightarrow> AList.update k v al = al @ [(k, v)]"
  by (induction al) auto

lemma update_members:
  "e \<in> set (AList.update k v al) \<Longrightarrow> e = (k, v) \<or> e \<in> set al"
  by (induction al) (auto split: if_splits)

lemma convertProperty_throws:
  "isl (convertPropertyToNotion prop)
     = (prop = JNull
        \<or> (get_member prop ''type'' = Some (JString ''select'')
            \<and> (\<exists>v. get_member prop ''options'' = Some v \<and> v \<noteq> JNull
                   \<and> (\<forall>opts. v \<noteq> JArray opts))))"
proof (cases "prop = JNull")
  case True
  then show ?thesis by (simp add: convertPropertyToNotion_def)
next
  case False
  note nn = this
  show ?thesis
  proof (cases "get_member prop ''type'' = Some (JString ''select'')")
    case True
    show ?thesis
    proof (cases "get_member prop ''options''")
      case None
      then show ?thesis using nn True by (simp add: convertPropertyToNotion_def)
    next
      case (Some v)
      then show ?thesis using nn True
        by (cases v) (simp_all add: convertPropertyToNotion_def)
    qed
  next
    case False
    then show ?thesis using nn by (simp add: convertPropertyToNotion_def)
  qed
qed

lemma convertProperty_well_formed:
  "convertPropertyToNotion prop = Inr r \<Longrightarrow> well_formed_property r"
proof (cases "get_member prop ''type'' = Some (JString ''select'')")
  case True
  assume r: "convertPropertyToNotion prop = Inr r"
  show ?thesis
  proof (cases "get_member prop ''options''")
    case None
    then show ?thesis using r True
      by (auto simp: convertPropertyToNotion_def select_property_def notionPropertyTypes_def
          split: if_splits)
  next
    case (Some v)
    then show ?thesis using r True
      by (cases v)
         (auto simp: convertPropertyToNotion_def select_property_def notionPropertyTypes_def
            split: if_splits)
  qed
next
  case False
  assume r: "convertPropertyToNotion prop = Inr r"
  then show ?thesis using False
    by (auto simp: convertPropertyToNotion_def notionPropertyTypes_def split: if_splits)
qed

lemma convert_entries_ok:
  "distinct (map fst es) \<Longrightarrow> \<forall>e \<in> set es. \<not> isl (convertPropertyToNotion (snd e)) \<Longrightarrow>
   fst ` set es \<inter> fst ` set acc = {} \<Longrightarrow>
   convert_entries es acc
     = Inr (acc @ map (\<lambda>(nm, p). (nm, projr (convertPropertyToNotion p)))
                    (filter (\<lambda>(nm, p). nm \<noteq> ''__proto__'') es))"
proof (induction es arbitrary: acc)
  case Nil
  show ?case by simp
next
  case (Cons e es)
  obtain nm p where e: "e = (nm, p)" by (cases e)
  from Cons.prems(2) obtain v where v: "convertPropertyToNotion p = Inr v"
    unfolding e by (cases "convertPropertyToNotion p") simp_all
  from Cons.prems have d: "distinct (map fst es)"
    and ok: "\<forall>e \<in> set es. \<not> isl (convertPropertyToNotion (snd e))"
    and fresh: "nm \<notin> fst ` set acc" and nm_es: "nm \<notin> fst ` set es"
    and disj: "fst ` set es \<inter> fst ` set acc = {}"
    unfolding e by auto
  show ?case
  proof (cases "nm = ''__proto__''")
    case True
    then show ?thesis unfolding e using Cons.IH [OF d ok disj]
      by (simp add: v assign_member_def)
  next
    case False
    have step: "assign_member nm v acc = acc @ [(nm, v)]"
      using False update_fresh [OF fresh] by (simp add: assign_member_def)
    have disj': "fst ` set es \<inter> fst ` set (acc @ [(nm, v)]) = {}"
      using disj nm_es by auto
    show ?thesis unfolding e using Cons.IH [OF d ok disj'] False
      by (simp add: v step)
  qed
qed

lemma convert_entries_well_formed:
  "convert_entries es acc = Inr props \<Longrightarrow> list_all (\<lambda>e. well_formed_property (snd e)) acc \<Longrightarrow>
   list_all (\<lambda>e. well_formed_property (snd e)) props"
proof (induction es arbitrary: acc)
  case Nil
  then show ?case by simp
next
  case (Cons e es)
  obtain nm p where e: "e = (nm, p)" by (cases e)
  from Cons.prems(1) obtain v where v: "convertPropertyToNotion p = Inr v"
    and rest: "convert_entries es (assign_member nm v acc) = Inr props"
    unfolding e by (cases "convertPropertyToNotion p") simp_all
  have wf: "well_formed_property v" by (rule convertProperty_well_formed [OF v])
  have "list_all (\<lambda>e. well_formed_property (snd e)) (assign_member nm v acc)"
    unfolding list_all_iff
  proof
    fix x assume "x \<in> set (assign_member nm v acc)"
    then have "x = (nm, v) \<or> x \<in> set acc"
      using update_members [of x nm v acc] by (simp add: assign_member_def split: if_splits)
    then show "well_formed_property (snd x)"
      using wf Cons.prems(2) by (auto simp: list_all_iff)
  qed
  from Cons.IH [OF rest this] show ?case .
qed

lemma default_assigned:
  "fold (\<lambda>(nm, v) props. assign_member nm v props) defaultProperties []
     = [(''Name'', JObject [(''title'', JObject [])]),
        (''Status'', JObject [(''select'', JObject [(''options'', JArray
           [JObject [(''name'', JString ''Planning''), (''color'', JString ''yellow'')],
            JObject [(''name'', JString ''In Progress''), (''color'', JString ''blue'')],
            JObject [(''name'', JString ''Completed''), (''color'', JString ''green'')],
            JObject [(''name'', JString ''On Hold''), (''color'', JString ''red'')]])])]),
        (''Created'', JObject [(''created_time'', JObject [])])]"
  by (simp add: defaultProperties_def assign_member_def select_property_def)

lemma convertSchema_well_formed:
  assumes "convertSchemaToNotionProperties sch = Inr props"
  shows "list_all (\<lambda>e. well_formed_property (snd e)) props"
proof -
  have dflt: "list_all (\<lambda>e. well_formed_property (snd e))
      (fold (\<lambda>(nm, v) props. assign_member nm v props) defaultProperties [])"
    unfolding default_assigned by (simp add: notionPropertyTypes_def)
  show ?thesis
  proof (cases "get_member sch ''properties''")
    case None
    then show ?thesis using assms dflt
      by (auto simp: convertSchemaToNotionProperties_def split: if_splits)
  next
    case (Some ps)
    show ?thesis
    proof (cases "truthy_json ps")
      case True
      then have "convert_entries (object_entries ps) [] = Inr props"
        using assms Some by (auto simp: convertSchemaToNotionProperties_def split: if_splits)
      from convert_entries_well_formed [OF this] show ?thesis by simp
    next
      case False
      then show ?thesis using assms Some dflt
        by (auto simp: convertSchemaToNotionProperties_def split: if_splits)
    qed
  qed
qed


lemma convertProperty_simple:
  assumes "(k, r) \<in> {(''title'', ''title''), (''date'', ''date''), (''checkbox'', ''checkbox''),
      (''text'', ''rich_text''), (''url'', ''url''), (''email'', ''email''),
      (''phone'', ''phone_number'')}"
    and "get_member prop ''type'' = Some (JString k)"
  shows "convertPropertyToNotion prop = Inr (JObject [(r, JObject [])])"
proof -
  from assms(2) have nn: "prop \<noteq> JNull" by (auto simp: get_member_def)
  from assms(1) consider "k = ''title'' \<and> r = ''title''" | "k = ''date'' \<and> r = ''date''"
    | "k = ''checkbox'' \<and> r = ''checkbox''" | "k = ''text'' \<and> r = ''rich_text''"
    | "k = ''url'' \<and> r = ''url''" | "k = ''email'' \<and> r = ''email''"
    | "k = ''phone'' \<and> r = ''phone_number''"
    by simp (elim disjE conjE; simp)
  then show ?thesis
    by cases (simp_all add: convertPropertyToNotion_def assms(2) nn)
qed

lemma convertProperty_other:
  assumes "prop \<noteq> JNull"
    and "get_member prop ''type'' \<notin> (\<lambda>k. Some (JString k)) ` {''title'', ''select'', ''number'',
      ''date'', ''checkbox'', ''text'', ''url'', ''email'', ''phone''}"
  shows "convertPropertyToNotion prop = Inr (JObject [(''rich_text'', JObject [])])"
  using assms by (simp add: convertPropertyToNotion_def image_iff)

lemma convertSchema_entries:
  assumes ps: "get_member sch ''properties'' = Some ps" and t: "truthy_json ps"
    and d: "distinct (map fst (object_entries ps))"
    and ok: "\<forall>e \<in> set (object_entries ps). \<not> isl (convertPropertyToNotion (snd e))"
  shows "convertSchemaToNotionProperties sch
     = Inr (map (\<lambda>(nm, p). (nm, projr (convertPropertyToNotion p)))
              (filter (\<lambda>(nm, p). nm \<noteq> ''__proto__'') (object_entries ps)))"
proof -
  from ps have nn: "sch \<noteq> JNull" by (auto simp: get_member_def)
  show ?thesis
    using convert_entries_ok [OF d ok, of "[]"]
    by (simp add: convertSchemaToNotionProperties_def nn ps t)
qed

lemma convert_entries_throws:
  "isl (convert_entries es acc) = (\<exists>e \<in> set es. isl (convertPropertyToNotion (snd e)))"
proof (induction es arbitrary: acc)
  case Nil
  then show ?case by simp
next
  case (Cons e es)
  obtain nm p where e: "e = (nm, p)" by (cases e)
  show ?case
  proof (cases "convertPropertyToNotion p")
    case (Inl err)
    then show ?thesis by (simp add: e)
  next
    case (Inr v)
    then show ?thesis by (simp add: e Cons.IH)
  qed
qed

lemma convertSchema_throws:
  "isl (convertSchemaToNotionProperties sch)
     = (sch = JNull
        \<or> (\<exists>ps. get_member sch ''properties'' = Some ps \<and> truthy_json ps
              \<and> (\<exists>e \<in> set (object_entries ps). isl (convertPropertyToNotion (snd e)))))"
proof (cases "sch = JNull")
  case True
  then show ?thesis by (simp add: convertSchemaToNotionProperties_def)
next
  case nn: False
  show ?thesis
  proof (cases "get_member sch ''properties''")
    case None
    with nn show ?thesis by (simp add: convertSchemaToNotionProperties_def)
  next
    case (Some ps)
    with nn show ?thesis
      by (simp add: convertSchemaToNotionProperties_def convert_entries_throws)
  qed
qed

text \<open>
  C10 (as amended). \<open>convertPropertyToNotion\<close> returns a well-formed remote property
  object for every field definition that is not \<open>null\<close> and whose \<open>options\<close>, when its
  \<open>type\<close> is \<open>select\<close>, are absent, \<open>null\<close> or an array; on a \<open>null\<close> field and on a
  select field with any other \<open>options\<close> it throws a TypeError, and it throws on no other
  field. The types \<open>title\<close>, \<open>date\<close>, \<open>checkbox\<close>, \<open>text\<close>, \<open>url\<close>, \<open>email\<close> and \<open>phone\<close>
  give their own property with an empty configuration; a select gives one option of colour
  \<open>default\<close> per element of \<open>options\<close> (none when \<open>options\<close> is absent or \<open>null\<close>); a
  number gives the declared \<open>format\<close>, or \<open>number\<close> when the format is absent or falsy.
  Every other type, a field with no type and a field that is not an object give a rich-text
  property. A schema that is not \<open>null\<close> and has no \<open>properties\<close> member, or a falsy one,
  receives the default properties Name, Status and Created. A schema with a truthy
  \<open>properties\<close> member, none of whose fields makes the translation throw, receives the
  translation of its entries other than one named \<open>__proto__\<close>, in their order, and nothing
  else: none when the member is the empty object. Whenever
  \<open>convertSchemaToNotionProperties\<close> returns, every property of its result is well formed;
  it throws exactly on a \<open>null\<close> schema and on a schema whose truthy \<open>properties\<close> hold
  a field that makes the translation throw.
\<close>

theorem field_translation:
  "isl (convertPropertyToNotion fld)
     = (fld = JNull
        \<or> (get_member fld ''type'' = Some (JString ''select'')
            \<and> (\<exists>v. get_member fld ''options'' = Some v \<and> v \<noteq> JNull
                   \<and> (\<forall>opts. v \<noteq> JArray opts))))
   \<and> (case convertPropertyToNotion fld of Inl e \<Rightarrow> True | Inr r \<Rightarrow> well_formed_property r)
   \<and> ((k, r) \<in> {(''title'', ''title''), (''date'', ''date''), (''checkbox'', ''checkbox''),
          (''text'', ''rich_text''), (''url'', ''url''), (''email'', ''email''),
          (''phone'', ''phone_number'')}
        \<and> get_member fld ''type'' = Some (JString k)
      \<longrightarrow> convertPropertyToNotion fld = Inr (JObject [(r, JObject [])]))
   \<and> (get_member fld ''type'' = Some (JString ''select'')
        \<and> get_member fld ''options'' = Some (JArray opts)
      \<longrightarrow> convertPropertyToNotion fld
          = Inr (JObject [(''select'', JObject [(''options'', JArray
              (map (\<lambda>opt. JObject [(''name'', opt), (''color'', JString ''default'')])
                 opts))])]))
   \<and> (get_member fld ''type'' = Some (JString ''select'')
        \<and> (get_member fld ''options'' = None \<or> get_member fld ''options'' = Some JNull)
      \<longrightarrow> convertPropertyToNotion fld
          = Inr (JObject [(''select'', JObject [(''options'', JArray [])])]))
   \<and> (get_member fld ''type'' = Some (JString ''number'')
      \<longrightarrow> convertPropertyToNotion fld
          = Inr (JObject [(''number'', JObject [(''format'',
              (case get_member fld ''format'' of
                 None \<Rightarrow> JString ''number''
               | Some f \<Rightarrow> if truthy_json f then f else JString ''number''))])]))
   \<and> (fld \<noteq> JNull
        \<and> get_member fld ''type'' \<notin> (\<lambda>k. Some (JString k)) ` {''title'', ''select'',
             ''number'', ''date'', ''checkbox'', ''text'', ''url'', ''email'', ''phone''}
      \<longrightarrow> convertPropertyToNotion fld = Inr (JObject [(''rich_text'', JObject [])]))
   \<and> (sch \<noteq> JNull
        \<and> (get_member sch ''properties'' = None
            \<or> (\<exists>v. get_member sch ''properties'' = Some v \<and> \<not> truthy_json v))
      \<longrightarrow> convertSchemaToNotionProperties sch
          = Inr [(''Name'', JObject [(''title'', JObject [])]),
                 (''Status'', JObject [(''select'', JObject [(''options'', JArray
                    [JObject [(''name'', JString ''Planning''), (''color'', JString ''yellow'')],
                     JObject [(''name'', JString ''In Progress''), (''color'', JString ''blue'')],
                     JObject [(''name'', JString ''Completed''), (''color'', JString ''green'')],
                     JObject [(''name'', JString ''On Hold''), (''color'', JString ''red'')]])])]),
                 (''Created'', JObject [(''created_time'', JObject [])])])
   \<and> (get_member sch ''properties'' = Some ps \<and> truthy_json ps
        \<and> distinct (map fst (object_entries ps))
        \<and> (\<forall>e \<in> set (object_entries ps). \<not> isl (convertPropertyToNotion (snd e)))
      \<longrightarrow> convertSchemaToNotionProperties sch
          = Inr (map (\<lambda>(nm, p). (nm, projr (convertPropertyToNotion p)))
                   (filter (\<lambda>(nm, p). nm \<noteq> ''__proto__'') (object_entries ps))))
   \<and> (case convertSchemaToNotionProperties sch of
         Inl e \<Rightarrow> True
       | Inr props \<Rightarrow> list_all (\<lambda>e. well_formed_property (snd e)) props)
   \<and> (isl (convertSchemaToNotionProperties sch)
        = (sch = JNull
           \<or> (\<exists>ps. get_member sch ''properties'' = Some ps \<and> truthy_json ps
                 \<and> (\<exists>e \<in> set (object_entries ps).
                        isl (convertPropertyToNotion (snd e))))))"
proof (intro conjI impI)
  show "isl (convertPropertyToNotion fld)
     = (fld = JNull
        \<or> (get_member fld ''type'' = Some (JString ''select'')
            \<and> (\<exists>v. get_member fld ''options'' = Some v \<and> v \<noteq> JNull
                   \<and> (\<forall>opts. v \<noteq> JArray opts))))"
    by (rule convertProperty_throws)
  show "case convertPropertyToNotion fld of Inl e \<Rightarrow> True | Inr r \<Rightarrow> well_formed_property r"
    by (cases "convertPropertyToNotion fld") (simp_all add: convertProperty_well_formed)
  show "convertPropertyToNotion fld = Inr (JObject [(r, JObject [])])"
    if "(k, r) \<in> {(''title'', ''title''), (''date'', ''date''), (''checkbox'', ''checkbox''),
          (''text'', ''rich_text''), (''url'', ''url''), (''email'', ''email''),
          (''phone'', ''phone_number'')}
        \<and> get_member fld ''type'' = Some (JString k)"
    using that convertProperty_simple [of k r fld] by (elim conjE)
  show "convertPropertyToNotion fld
          = Inr (JObject [(''select'', JObject [(''options'', JArray
              (map (\<lambda>opt. JObject [(''name'', opt), (''color'', JString ''default'')])
                 opts))])])"
    if "get_member fld ''type'' = Some (JString ''select'')
        \<and> get_member fld ''options'' = Some (JArray opts)"
  proof -
    from that have "fld \<noteq> JNull" by (auto simp: get_member_def)
    with that show ?thesis by (simp add: convertPropertyToNotion_def select_property_def)
  qed
  show "convertPropertyToNotion fld
          = Inr (JObject [(''select'', JObject [(''options'', JArray [])])])"
    if "get_member fld ''type'' = Some (JString ''select'')
        \<and> (get_member fld ''options'' = None \<or> get_member fld ''options'' = Some JNull)"
  proof -
    from that have "fld \<noteq> JNull" by (auto simp: get_member_def)
    with that show ?thesis
      by (elim conjE disjE) (simp_all add: convertPropertyToNotion_def select_property_def)
  qed
  show "convertPropertyToNotion fld
          = Inr (JObject [(''number'', JObject [(''format'',
              (case get_member fld ''format'' of
                 None \<Rightarrow> JString ''number''
               | Some f \<Rightarrow> if truthy_json f then f else JString ''number''))])])"
    if "get_member fld ''type'' = Some (JString ''number'')"
  proof -
    from that have "fld \<noteq> JNull" by (auto simp: get_member_def)
    with that show ?thesis by (simp add: convertPropertyToNotion_def)
  qed
  show "convertPropertyToNotion fld = Inr (JObject [(''rich_text'', JObject [])])"
    if "fld \<noteq> JNull
        \<and> get_member fld ''type'' \<notin> (\<lambda>k. Some (JString k)) ` {''title'', ''select'',
             ''number'', ''date'', ''checkbox'', ''text'', ''url'', ''email'', ''phone''}"
    using that convertProperty_other [of fld] by (elim conjE)
  show "convertSchemaToNotionProperties sch
          = Inr [(''Name'', JObject [(''title'', JObject [])]),
                 (''Status'', JObject [(''select'', JObject [(''options'', JArray
                    [JObject [(''name'', JString ''Planning''), (''color'', JString ''yellow'')],
                     JObject [(''name'', JString ''In Progress''), (''color'', JString ''blue'')],
                     JObject [(''name'', JString ''Completed''), (''color'', JString ''green'')],
                     JObject [(''name'', JString ''On Hold''), (''color'', JString ''red'')]])])]),
                 (''Created'', JObject [(''created_time'', JObject [])])]"
    if "sch \<noteq> JNull
        \<and> (get_member sch ''properties'' = None
            \<or> (\<exists>v. get_member sch ''properties'' = Some v \<and> \<not> truthy_json v))"
    using that
    by (elim conjE disjE exE)
       (simp_all add: convertSchemaToNotionProperties_def default_assigned)
  show "convertSchemaToNotionProperties sch
          = Inr (map (\<lambda>(nm, p). (nm, projr (convertPropertyToNotion p)))
                   (filter (\<lambda>(nm, p). nm \<noteq> ''__proto__'') (object_entries ps)))"
    if "get_member sch ''properties'' = Some ps \<and> truthy_json ps
        \<and> distinct (map fst (object_entries ps))
        \<and> (\<forall>e \<in> set (object_entries ps). \<not> isl (convertPropertyToNotion (snd e)))"
    using that convertSchema_entries [of sch ps] by (elim conjE)
  show "case convertSchemaToNotionProperties sch of
         Inl e \<Rightarrow> True
       | Inr props \<Rightarrow> list_all (\<lambda>e. well_formed_property (snd e)) props"
    by (cases "convertSchemaToNotionProperties sch") (simp_all add: convertSchema_well_formed)
  show "isl (convertSchemaToNotionProperties sch)
        = (sch = JNull
           \<or> (\<exists>ps. get_member sch ''properties'' = Some ps \<and> truthy_json ps
                 \<and> (\<exists>e \<in> set (object_entries ps).
                        isl (convertPropertyToNotion (snd e)))))"
    by (rule convertSchema_throws)
qed

theorem field_translation_witness:
  "convertPropertyToNotion (JObject [(''type'', JString ''url'')])
     = Inr (JObject [(''url'', JObject [])])
   \<and> convertPropertyToNotion (JObject [(''type'', JString ''select''),
          (''options'', JArray [JString ''Low'', JString ''High''])])
     = Inr (JObject [(''select'', JObject [(''options'', JArray
          [JObject [(''name'', JString ''Low''), (''color'', JString ''default'')],
           JObject [(''name'', JString ''High''), (''color'', JString ''default'')]])])])
   \<and> convertPropertyToNotion (JObject [(''type'', JString ''select'')])
     = Inr (JObject [(''select'', JObject [(''options'', JArray [])])])
   \<and> convertPropertyToNotion (JObject [(''type'', JString ''number''),
          (''format'', JString ''dollar'')])
     = Inr (JObject [(''number'', JObject [(''format'', JString ''dollar'')])])
   \<and> convertPropertyToNotion (JObject [(''type'', JString ''formula'')])
     = Inr (JObject [(''rich_text'', JObject [])])
   \<and> convertSchemaToNotionProperties (JObject [(''title'', JString ''Clients'')])
     = Inr [(''Name'', JObject [(''title'', JObject [])]),
            (''Status'', JObject [(''select'', JObject [(''options'', JArray
               [JObject [(''name'', JString ''Planning''), (''color'', JString ''yellow'')],
                JObject [(''name'', JString ''In Progress''), (''color'', JString ''blue'')],
                JObject [(''name'', JString ''Completed''), (''color'', JString ''green'')],
                JObject [(''name'', JString ''On Hold''), (''color'', JString ''red'')]])])]),
            (''Created'', JObject [(''created_time'', JObject [])])]
   \<and> convertSchemaToNotionProperties (JObject [(''properties'', JObject
          [(''Name'', JObject [(''type'', JString ''title'')]),
           (''__proto__'', JObject [(''type'', JString ''date'')]),
           (''Budget'', JObject [(''type'', JString ''number''),
              (''format'', JString ''dollar'')])])])
     = Inr [(''Name'', JObject [(''title'', JObject [])]),
            (''Budget'', JObject [(''number'', JObject [(''format'', JString ''dollar'')])])]"
proof (intro conjI)
  show "convertPropertyToNotion (JObject [(''type'', JString ''url'')])
     = Inr (JObject [(''url'', JObject [])])"
    by (rule mp [OF field_translation [where fld = "JObject [(''type'', JString ''url'')]"
          and k = "''url''" and r = "''url''", THEN conjunct2, THEN conjunct2, THEN conjunct1]])
       (simp add: get_member_def)
  show "convertPropertyToNotion (JObject [(''type'', JString ''select''),
          (''options'', JArray [JString ''Low'', JString ''High''])])
     = Inr (JObject [(''select'', JObject [(''options'', JArray
          [JObject [(''name'', JString ''Low''), (''color'', JString ''default'')],
           JObject [(''name'', JString ''High''), (''color'', JString ''default'')]])])])"
    using mp [OF field_translation [where fld = "JObject [(''type'', JString ''select''),
          (''options'', JArray [JString ''Low'', JString ''High''])]"
          and opts = "[JString ''Low'', JString ''High'']",
          THEN conjunct2, THEN conjunct2, THEN conjunct2, THEN conjunct1]]
    by (simp add: get_member_def)
  show "convertPropertyToNotion (JObject [(''type'', JString ''select'')])
     = Inr (JObject [(''select'', JObject [(''options'', JArray [])])])"
    by (rule mp [OF field_translation [where fld = "JObject [(''type'', JString ''select'')]",
          THEN conjunct2, THEN conjunct2, THEN conjunct2, THEN conjunct2, THEN conjunct1]])
       (simp add: get_member_def)
  show "convertPropertyToNotion (JObject [(''type'', JString ''number''),
          (''format'', JString ''dollar'')])
     = Inr (JObject [(''number'', JObject [(''format'', JString ''dollar'')])])"
    using mp [OF field_translation [where fld = "JObject [(''type'', JString ''number''),
          (''format'', JString ''dollar'')]",
          THEN conjunct2, THEN conjunct2, THEN conjunct2, THEN conjunct2, THEN conjunct2,
          THEN conjunct1]]
    by (simp add: get_member_def truthy_json_def)
  show "convertPropertyToNotion (JObject [(''type'', JString ''formula'')])
     = Inr (JObject [(''rich_text'', JObject [])])"
    by (rule mp [OF field_translation [where fld = "JObject [(''type'', JString ''formula'')]",
          THEN conjunct2, THEN conjunct2, THEN conjunct2, THEN conjunct2, THEN conjunct2,
          THEN conjunct2, THEN conjunct1]])
       (simp add: get_member_def)
  show "convertSchemaToNotionProperties (JObject [(''title'', JString ''Clients'')])
     = Inr [(''Name'', JObject [(''title'', JObject [])]),
            (''Status'', JObject [(''select'', JObject [(''options'', JArray
               [JObject [(''name'', JString ''Planning''), (''color'', JString ''yellow'')],
                JObject [(''name'', JString ''In Progress''), (''color'', JString ''blue'')],
                JObject [(''name'', JString ''Completed''), (''color'', JString ''green'')],
                JObject [(''name'', JString ''On Hold''), (''color'', JString ''red'')]])])]),
            (''Created'', JObject [(''created_time'', JObject [])])]"
    by (rule mp [OF field_translation [where sch = "JObject [(''title'', JString ''Clients'')]",
          THEN conjunct2, THEN conjunct2, THEN conjunct2, THEN conjunct2, THEN conjunct2,
          THEN conjunct2, THEN conjunct2, THEN conjunct1]])
       (simp add: get_member_def)
  show "convertSchemaToNotionProperties (JObject [(''properties'', JObject
          [(''Name'', JObject [(''type'', JString ''title'')]),
           (''__proto__'', JObject [(''type'', JString ''date'')]),
           (''Budget'', JObject [(''type'', JString ''number''),
              (''format'', JString ''dollar'')])])])
     = Inr [(''Name'', JObject [(''title'', JObject [])]),
            (''Budget'', JObject [(''number'', JObject [(''format'', JString ''dollar'')])])]"
    using mp [OF field_translation [where sch = "JObject [(''properties'', JObject
          [(''Name'', JObject [(''type'', JString ''title'')]),
           (''__proto__'', JObject [(''type'', JString ''date'')]),
           (''Budget'', JObject [(''type'', JString ''number''),
              (''format'', JString ''dollar'')])])]"
          and ps = "JObject
          [(''Name'', JObject [(''type'', JString ''title'')]),
           (''__proto__'', JObject [(''type'', JString ''date'')]),
           (''Budget'', JObject [(''type'', JString ''number''),
              (''format'', JString ''dollar'')])]",
          THEN conjunct2, THEN conjunct2, THEN conjunct2, THEN conjunct2, THEN conjunct2,
          THEN conjunct2, THEN conjunct2, THEN conjunct2, THEN conjunct1]]
    by (simp add: get_member_def truthy_json_def object_entries_def convertPropertyToNotion_def)
qed

text \<open>
  C10 as stated fails. A schema whose \<open>properties\<close> member is the empty object declares no
  field, and it receives no property, not the default ones. The translation of a field
  throws on a \<open>null\<close> field, and on a select field whose \<open>options\<close> are a string.
\<close>

theorem field_translation_counterexample:
  "convertSchemaToNotionProperties
       (JObject [(''title'', JString ''Clients''), (''properties'', JObject [])]) = Inr []
   \<and> isl (convertPropertyToNotion JNull)
   \<and> isl (convertPropertyToNotion
        (JObject [(''type'', JString ''select''), (''options'', JString ''Low, High'')]))"
  by (simp add: convertSchemaToNotionProperties_def convertPropertyToNotion_def get_member_def
      truthy_json_def object_entries_def)

section \<open>Properties of client validation and the build\<close>

lemma ensureDirectoryExists_ok:
  "mkdir nd p = None \<Longrightarrow>
   ensureDirectoryExists nd p w = (Inr (), w\<lparr>trace := trace w @ [Mkdir p]\<rparr>)"
  by (simp add: ensureDirectoryExists_def Let_def)

lemma write_file_ok:
  "writeFile nd p c = None \<Longrightarrow>
   write_file nd p c w = (Inr (), w\<lparr>trace := trace w @ [Write_file p]\<rparr>)"
  by (simp add: write_file_def)

lemma save_schemas_ok:
  "\<forall>p c. writeFile nd p c = None \<Longrightarrow> fst (save_schemas nd l w) = Inr ()"
proof (induction l arbitrary: w)
  case Nil
  then show ?case by simp
next
  case (Cons sch rest)
  from Cons.prems have
    "writeFile nd (path_join ''dist/schemas'' (name sch @ ''.json'')) (Schema_json sch) = None"
    by blast
  then show ?case using Cons.IH [OF Cons.prems] by (simp add: write_file_ok)
qed

lemma saveBuildComponents_ok:
  assumes "\<forall>p. mkdir nd p = None" and "\<forall>p c. writeFile nd p c = None"
  shows "fst (saveBuildComponents nd pkg w) = Inr ()"
  unfolding saveBuildComponents_def
  by (simp add: ensureDirectoryExists_ok assms write_file_ok case_prod_beta
      save_schemas_ok [OF assms(2)])

lemma buildTemplate_no_validation:
  assumes tier: "templateConfigs (opt_tier opts) = Some cfg"
    and mk: "\<forall>p. mkdir nd p = None" and wr: "\<forall>p c. writeFile nd p c = None"
  shows "\<exists>pkg. fst (buildTemplate nd parse pj opts w) = Inr pkg
           \<and> bp_client pkg = opt_client opts"
  unfolding buildTemplate_def
  by (simp add: Date_now_def ensureDirectoryExists_ok mk generateTemplateConfig_def tier
        buildViewConfigurations_def Let_def write_file_ok wr case_prod_beta
        saveBuildComponents_ok [OF mk wr])


text \<open>
  C9 (as amended). The check of the client identity is \<open>validateClientName\<close> of the input
  validation script: it rejects an identity exactly when the identity contains one of the
  characters \<open>< > : " / \ | ? *\<close> or is a reserved word once lower-cased; the empty
  identity passes it. \<open>buildTemplate\<close> checks nothing of the identity: for a tier of the
  catalogue, whenever the directories and files can be written it returns a build package
  whose \<open>client\<close> is the identity it was given, whatever that is.
\<close>

theorem client_validation:
  "isl (validateClientName c)
     = ((\<exists>ch \<in> set c. ch \<in> set problematicChars) \<or> toLowerCase c \<in> set reservedWords)
   \<and> validateClientName [] = Inr ()
   \<and> (templateConfigs (opt_tier opts) \<noteq> None
        \<and> (\<forall>p. mkdir nd p = None) \<and> (\<forall>p content. writeFile nd p content = None)
        \<longrightarrow> (\<exists>pkg. fst (buildTemplate nd parse pj opts w) = Inr pkg
               \<and> bp_client pkg = opt_client opts))"
proof -
  have v: "isl (validateClientName c)
     = ((\<exists>ch \<in> set c. ch \<in> set problematicChars) \<or> toLowerCase c \<in> set reservedWords)"
    by (simp add: validateClientName_def)
  have e: "validateClientName [] = Inr ()"
    by (simp add: validateClientName_def toLowerCase_def reservedWords_def)
  have b: "templateConfigs (opt_tier opts) \<noteq> None
        \<and> (\<forall>p. mkdir nd p = None) \<and> (\<forall>p content. writeFile nd p content = None)
        \<longrightarrow> (\<exists>pkg. fst (buildTemplate nd parse pj opts w) = Inr pkg
               \<and> bp_client pkg = opt_client opts)"
  proof (intro impI, elim conjE)
    assume "templateConfigs (opt_tier opts) \<noteq> None"
      and mk: "\<forall>p. mkdir nd p = None" and wr: "\<forall>p content. writeFile nd p content = None"
    then obtain cfg where "templateConfigs (opt_tier opts) = Some cfg" by blast
    from buildTemplate_no_validation [OF this mk wr]
    show "\<exists>pkg. fst (buildTemplate nd parse pj opts w) = Inr pkg
               \<and> bp_client pkg = opt_client opts" .
  qed
  from v e b show ?thesis by (intro conjI)
qed

lemma build_node_writes:
  "\<forall>p. mkdir build_node p = None" "\<forall>p content. writeFile build_node p content = None"
  by (simp_all add: build_node_def)

lemma starter_known: "templateConfigs ''starter'' \<noteq> None"
  by (simp add: templateConfigs_def)

theorem client_validation_witness:
  "templateConfigs (opt_tier \<lparr>opt_tier = ''starter'', opt_client = ''Acme Co'',
       opt_sampleData = False\<rparr>) \<noteq> None
   \<and> (\<forall>p. mkdir build_node p = None) \<and> (\<forall>p content. writeFile build_node p content = None)
   \<and> (\<exists>pkg. fst (buildTemplate build_node parse_schema None
          \<lparr>opt_tier = ''starter'', opt_client = ''Acme Co'', opt_sampleData = False\<rparr>
          \<lparr>ticks = 0, trace = []\<rparr>) = Inr pkg \<and> bp_client pkg = ''Acme Co'')"
proof -
  have h: "templateConfigs (opt_tier \<lparr>opt_tier = ''starter'', opt_client = ''Acme Co'',
       opt_sampleData = False\<rparr>) \<noteq> None
   \<and> (\<forall>p. mkdir build_node p = None) \<and> (\<forall>p content. writeFile build_node p content = None)"
    using starter_known build_node_writes by simp
  note t = client_validation [where nd = build_node and parse = parse_schema and pj = None
      and w = "\<lparr>ticks = 0, trace = []\<rparr>"
      and opts = "\<lparr>opt_tier = ''starter'', opt_client = ''Acme Co'', opt_sampleData = False\<rparr>",
      THEN conjunct2, THEN conjunct2]
  have "\<exists>pkg. fst (buildTemplate build_node parse_schema None
          \<lparr>opt_tier = ''starter'', opt_client = ''Acme Co'', opt_sampleData = False\<rparr>
          \<lparr>ticks = 0, trace = []\<rparr>) = Inr pkg
        \<and> bp_client pkg = opt_client \<lparr>opt_tier = ''starter'', opt_client = ''Acme Co'',
             opt_sampleData = False\<rparr>"
    by (rule mp [OF t h])
  then have "\<exists>pkg. fst (buildTemplate build_node parse_schema None
          \<lparr>opt_tier = ''starter'', opt_client = ''Acme Co'', opt_sampleData = False\<rparr>
          \<lparr>ticks = 0, trace = []\<rparr>) = Inr pkg \<and> bp_client pkg = ''Acme Co''"
    by simp
  with h show ?thesis by (simp only: simp_thms)
qed

text \<open>
  C9 as stated fails: the reserved word \<open>admin\<close>, which \<open>validateClientName\<close> rejects, and
  the empty identity are both built into a package by \<open>buildTemplate\<close>.
\<close>

theorem reserved_client_builds_counterexample:
  "isl (validateClientName ''admin'')
   \<and> (\<exists>pkg. fst (buildTemplate build_node parse_schema None
          \<lparr>opt_tier = ''starter'', opt_client = ''admin'', opt_sampleData = False\<rparr>
          \<lparr>ticks = 0, trace = []\<rparr>) = Inr pkg \<and> bp_client pkg = ''admin'')
   \<and> (\<exists>pkg. fst (buildTemplate build_node parse_schema None
          \<lparr>opt_tier = ''starter'', opt_client = [], opt_sampleData = False\<rparr>
          \<lparr>ticks = 0, trace = []\<rparr>) = Inr pkg \<and> bp_client pkg = [])"
proof -
  have a: "isl (validateClientName ''admin'')"
    by (simp add: validateClientName_def toLowerCase_def lower_char_def reservedWords_def
        problematicChars_def)
  have t: "templateConfigs ''starter'' = Some starter" by (simp add: templateConfigs_def)
  have b: "\<exists>pkg. fst (buildTemplate build_node parse_schema None
          \<lparr>opt_tier = ''starter'', opt_client = ''admin'', opt_sampleData = False\<rparr>
          \<lparr>ticks = 0, trace = []\<rparr>) = Inr pkg \<and> bp_client pkg = ''admin''"
    using buildTemplate_no_validation [where opts = "\<lparr>opt_tier = ''starter'',
        opt_client = ''admin'', opt_sampleData = False\<rparr>" and nd = build_node
        and cfg = starter and parse = parse_schema and pj = None
        and w = "\<lparr>ticks = 0, trace = []\<rparr>"] t build_node_writes
    by simp
  have c: "\<exists>pkg. fst (buildTemplate build_node parse_schema None
          \<lparr>opt_tier = ''starter'', opt_client = [], opt_sampleData = False\<rparr>
          \<lparr>ticks = 0, trace = []\<rparr>) = Inr pkg \<and> bp_client pkg = []"
    using buildTemplate_no_validation [where opts = "\<lparr>opt_tier = ''starter'',
        opt_client = [], opt_sampleData = False\<rparr>" and nd = build_node
        and cfg = starter and parse = parse_schema and pj = None
        and w = "\<lparr>ticks = 0, trace = []\<rparr>"] t build_node_writes
    by simp
  from a b c show ?thesis by (intro conjI)
qed

section \<open>Properties of the schema selection\<close>

lemma schemas_loop_all_read:
  assumes cfg: "templateConfigs tr = Some cfg"
    and ok: "\<forall>file \<in> set files. \<exists>content sch.
        readFile nd (path_join base file) = Inr content \<and> parse content = Inr sch"
  shows "schemas_loop nd parse tr base files acc
     = acc @ map (schema_of_file nd parse tr base)
         (filter (\<lambda>file. replace file ''.json'' [] \<in> set (databases cfg)) files)"
  using ok
proof (induction files arbitrary: acc)
  case Nil
  then show ?case by simp
next
  case (Cons f rest)
  from Cons.prems obtain content sch where
    rd: "readFile nd (path_join base f) = Inr content" and ps: "parse content = Inr sch"
    by auto
  from Cons.prems have rest_ok: "\<forall>f \<in> set rest. \<exists>content sch.
        readFile nd (path_join base f) = Inr content \<and> parse content = Inr sch"
    by simp
  show ?case
    by (simp add: rd ps cfg Let_def Cons.IH [OF rest_ok] schema_of_file_def)
qed

lemma schemas_loop_entries:
  assumes cfg: "templateConfigs tr = Some cfg"
  shows "set (schemas_loop nd parse tr base files acc)
     \<subseteq> set acc \<union> {e. name e \<in> set (databases cfg) \<and> se_tier e = tr}
         \<union> set (generateDefaultSchemas tr)"
proof (induction files arbitrary: acc)
  case Nil
  then show ?case by auto
next
  case (Cons f rest)
  show ?case
  proof (cases "readFile nd (path_join base f)")
    case (Inl e)
    then show ?thesis by auto
  next
    case (Inr content)
    note rd = this
    show ?thesis
    proof (cases "parse content")
      case (Inl e)
      then show ?thesis using rd by auto
    next
      case (Inr sch)
      show ?thesis
      proof (cases "replace f ''.json'' [] \<in> set (databases cfg)")
        case True
        have "set (schemas_loop nd parse tr base rest
                (acc @ [\<lparr>name = replace f ''.json'' [], schema = sch, se_tier = tr\<rparr>]))
            \<subseteq> set (acc @ [\<lparr>name = replace f ''.json'' [], schema = sch, se_tier = tr\<rparr>])
              \<union> {e. name e \<in> set (databases cfg) \<and> se_tier e = tr}
              \<union> set (generateDefaultSchemas tr)"
          by (rule Cons.IH)
        then show ?thesis using rd Inr True cfg by (auto simp: Let_def)
      next
        case False
        then show ?thesis using rd Inr cfg Cons.IH [of acc] by (simp add: Let_def)
      qed
    qed
  qed
qed


lemma buildDatabaseSchemas_all_read:
  assumes cfg: "templateConfigs tr = Some cfg"
    and rd: "readdir nd (baseSchemasPath nd) = Inr files"
    and ok: "\<forall>f \<in> set files. endsWith f ''.json'' \<longrightarrow> (\<exists>content sch.
        readFile nd (path_join (baseSchemasPath nd) f) = Inr content \<and> parse content = Inr sch)"
  shows "buildDatabaseSchemas nd parse tr
     = map (schema_of_file nd parse tr (baseSchemasPath nd))
         (filter (\<lambda>f. endsWith f ''.json'' \<and> replace f ''.json'' [] \<in> set (databases cfg))
            files)"
proof -
  from ok have ok': "\<forall>f \<in> set (filter (\<lambda>f. endsWith f ''.json'') files). \<exists>content sch.
        readFile nd (path_join (baseSchemasPath nd) f) = Inr content \<and> parse content = Inr sch"
    by simp
  have conj_filter: "filter (\<lambda>f. replace f ''.json'' [] \<in> set (databases cfg))
         (filter (\<lambda>f. endsWith f ''.json'') files)
      = filter (\<lambda>f. endsWith f ''.json'' \<and> replace f ''.json'' [] \<in> set (databases cfg)) files"
    by (simp add: conj_commute)
  show ?thesis
    unfolding buildDatabaseSchemas_def
    by (simp add: rd schemas_loop_all_read [OF cfg ok'] conj_filter)
qed

lemma buildDatabaseSchemas_entries:
  assumes cfg: "templateConfigs tr = Some cfg"
  shows "set (buildDatabaseSchemas nd parse tr)
     \<subseteq> {e. name e \<in> set (databases cfg) \<and> se_tier e = tr} \<union> set (generateDefaultSchemas tr)"
proof (cases "readdir nd (baseSchemasPath nd)")
  case (Inl e)
  then show ?thesis by (simp add: buildDatabaseSchemas_def)
next
  case (Inr files)
  then show ?thesis
    using schemas_loop_entries [OF cfg, of nd parse "baseSchemasPath nd"
        "filter (\<lambda>f. endsWith f ''.json'') files" "[]"]
    by (simp add: buildDatabaseSchemas_def)
qed

text \<open>
  C3 (as amended). For a tier of the catalogue and any content of the schema store,
  \<open>buildDatabaseSchemas\<close> returns a list of schemas and never fails. When the store
  directory cannot be listed, the list is the one built-in default schema, \<open>projects\<close> with
  the properties Name (title), Status (select) and Budget (number), which carries no tag.
  When the directory is listed and every \<open>.json\<close> file in it reads and parses, the list has
  one entry for each \<open>.json\<close> file whose name without \<open>.json\<close> is a database name of the
  tier, in the order of the listing, and so no entry for a database name that has no file.
  In every case an entry is one for a database name of the tier or the default schema.
\<close>

theorem buildDatabaseSchemas_result:
  assumes cfg: "templateConfigs tr = Some cfg"
  shows "(isl (readdir nd (baseSchemasPath nd))
           \<longrightarrow> buildDatabaseSchemas nd parse tr = generateDefaultSchemas tr)
    \<and> generateDefaultSchemas tr =
        [\<lparr>name = ''projects'',
          schema = \<lparr>title = Some ''Projects'', properties = Some
            [(''Name'', \<lparr>type = Some ''title'', options = None, format = None\<rparr>),
             (''Status'', \<lparr>type = Some ''select'',
                options = Some [''Planning'', ''In Progress'', ''Completed''], format = None\<rparr>),
             (''Budget'', \<lparr>type = Some ''number'', options = None,
                format = Some ''dollar''\<rparr>)]\<rparr>,
          se_tier = tr\<rparr>]
    \<and> (readdir nd (baseSchemasPath nd) = Inr files
        \<and> (\<forall>f \<in> set files. endsWith f ''.json'' \<longrightarrow> (\<exists>content sch.
              readFile nd (path_join (baseSchemasPath nd) f) = Inr content
              \<and> parse content = Inr sch))
        \<longrightarrow> buildDatabaseSchemas nd parse tr
              = map (schema_of_file nd parse tr (baseSchemasPath nd))
                  (filter (\<lambda>f. endsWith f ''.json''
                             \<and> replace f ''.json'' [] \<in> set (databases cfg)) files)
            \<and> (\<forall>n. n \<in> set (map name (buildDatabaseSchemas nd parse tr))
                   \<longleftrightarrow> n \<in> set (databases cfg)
                       \<and> (\<exists>f \<in> set files. endsWith f ''.json'' \<and> replace f ''.json'' [] = n)))
    \<and> set (buildDatabaseSchemas nd parse tr)
        \<subseteq> {e. name e \<in> set (databases cfg) \<and> se_tier e = tr}
          \<union> set (generateDefaultSchemas tr)"
proof -
  have a: "isl (readdir nd (baseSchemasPath nd))
           \<longrightarrow> buildDatabaseSchemas nd parse tr = generateDefaultSchemas tr"
    by (cases "readdir nd (baseSchemasPath nd)") (simp_all add: buildDatabaseSchemas_def)
  have b: "generateDefaultSchemas tr =
        [\<lparr>name = ''projects'',
          schema = \<lparr>title = Some ''Projects'', properties = Some
            [(''Name'', \<lparr>type = Some ''title'', options = None, format = None\<rparr>),
             (''Status'', \<lparr>type = Some ''select'',
                options = Some [''Planning'', ''In Progress'', ''Completed''], format = None\<rparr>),
             (''Budget'', \<lparr>type = Some ''number'', options = None,
                format = Some ''dollar''\<rparr>)]\<rparr>,
          se_tier = tr\<rparr>]"
    by (simp add: generateDefaultSchemas_def)
  have c: "readdir nd (baseSchemasPath nd) = Inr files
        \<and> (\<forall>f \<in> set files. endsWith f ''.json'' \<longrightarrow> (\<exists>content sch.
              readFile nd (path_join (baseSchemasPath nd) f) = Inr content
              \<and> parse content = Inr sch))
        \<longrightarrow> buildDatabaseSchemas nd parse tr
              = map (schema_of_file nd parse tr (baseSchemasPath nd))
                  (filter (\<lambda>f. endsWith f ''.json''
                             \<and> replace f ''.json'' [] \<in> set (databases cfg)) files)
            \<and> (\<forall>n. n \<in> set (map name (buildDatabaseSchemas nd parse tr))
                   \<longleftrightarrow> n \<in> set (databases cfg)
                       \<and> (\<exists>f \<in> set files. endsWith f ''.json'' \<and> replace f ''.json'' [] = n))"
  proof (intro impI, elim conjE)
    assume rd: "readdir nd (baseSchemasPath nd) = Inr files"
      and ok: "\<forall>f \<in> set files. endsWith f ''.json'' \<longrightarrow> (\<exists>content sch.
              readFile nd (path_join (baseSchemasPath nd) f) = Inr content
              \<and> parse content = Inr sch)"
    note eq = buildDatabaseSchemas_all_read [OF cfg rd ok]
    have names: "\<forall>n. n \<in> set (map name (buildDatabaseSchemas nd parse tr))
                   \<longleftrightarrow> n \<in> set (databases cfg)
                       \<and> (\<exists>f \<in> set files. endsWith f ''.json'' \<and> replace f ''.json'' [] = n)"
      unfolding eq by (auto simp: schema_of_file_def)
    from eq names show "buildDatabaseSchemas nd parse tr
              = map (schema_of_file nd parse tr (baseSchemasPath nd))
                  (filter (\<lambda>f. endsWith f ''.json''
                             \<and> replace f ''.json'' [] \<in> set (databases cfg)) files)
            \<and> (\<forall>n. n \<in> set (map name (buildDatabaseSchemas nd parse tr))
                   \<longleftrightarrow> n \<in> set (databases cfg)
                       \<and> (\<exists>f \<in> set files. endsWith f ''.json'' \<and> replace f ''.json'' [] = n))"
      by (rule conjI)
  qed
  note d = buildDatabaseSchemas_entries [OF cfg, of nd parse]
  from a b c d show ?thesis by (intro conjI)
qed

lemma build_node_listing:
  "readdir build_node (baseSchemasPath build_node)
     = Inr [''projects.json'', ''notes.txt'', ''inventory.json'']"
  by (simp add: build_node_def baseSchemasPath_def path_join_def)

lemma build_node_reads:
  "\<forall>f \<in> set [''projects.json'', ''notes.txt'', ''inventory.json'']. endsWith f ''.json'' \<longrightarrow>
     (\<exists>content sch. readFile build_node (path_join (baseSchemasPath build_node) f) = Inr content
        \<and> parse_schema content = Inr sch)"
  by (simp add: build_node_def parse_schema_def)

lemma starter_config: "templateConfigs ''starter'' = Some starter"
  by (simp add: templateConfigs_def)

lemma build_node_schemas:
  "map name (buildDatabaseSchemas build_node parse_schema ''starter'') = [''projects'']"
  unfolding buildDatabaseSchemas_all_read [OF starter_config build_node_listing build_node_reads]
  by (simp add: endsWith_def startsWith_def starter_def schema_of_file_def)

theorem buildDatabaseSchemas_result_witness:
  "templateConfigs ''starter'' = Some starter
   \<and> readdir build_node (baseSchemasPath build_node)
       = Inr [''projects.json'', ''notes.txt'', ''inventory.json'']
   \<and> map name (buildDatabaseSchemas build_node parse_schema ''starter'') = [''projects'']
   \<and> isl (readdir (build_node\<lparr>dirname := ''/nowhere''\<rparr>)
        (baseSchemasPath (build_node\<lparr>dirname := ''/nowhere''\<rparr>)))
   \<and> map name (buildDatabaseSchemas (build_node\<lparr>dirname := ''/nowhere''\<rparr>) parse_schema
        ''starter'') = [''projects'']"
proof -
  note t1 = buildDatabaseSchemas_result [OF starter_config, where nd = build_node
      and parse = parse_schema
      and files = "[''projects.json'', ''notes.txt'', ''inventory.json'']"]
  note t2 = buildDatabaseSchemas_result [OF starter_config,
      where nd = "build_node\<lparr>dirname := ''/nowhere''\<rparr>" and parse = parse_schema]
  have h: "readdir build_node (baseSchemasPath build_node)
       = Inr [''projects.json'', ''notes.txt'', ''inventory.json'']
     \<and> (\<forall>f \<in> set [''projects.json'', ''notes.txt'', ''inventory.json'']. endsWith f ''.json''
        \<longrightarrow> (\<exists>content sch.
              readFile build_node (path_join (baseSchemasPath build_node) f) = Inr content
              \<and> parse_schema content = Inr sch))"
    using build_node_listing build_node_reads by (rule conjI)
  from mp [OF t1 [THEN conjunct2, THEN conjunct2, THEN conjunct1] h]
  have eq: "buildDatabaseSchemas build_node parse_schema ''starter''
      = map (schema_of_file build_node parse_schema ''starter'' (baseSchemasPath build_node))
          (filter (\<lambda>f. endsWith f ''.json'' \<and> replace f ''.json'' [] \<in> set (databases starter))
             [''projects.json'', ''notes.txt'', ''inventory.json''])"
    by (rule conjunct1)
  have names: "map name (buildDatabaseSchemas build_node parse_schema ''starter'')
      = [''projects'']"
    unfolding eq by (simp add: endsWith_def startsWith_def starter_def schema_of_file_def)
  have fails: "isl (readdir (build_node\<lparr>dirname := ''/nowhere''\<rparr>)
        (baseSchemasPath (build_node\<lparr>dirname := ''/nowhere''\<rparr>)))"
    by (simp add: build_node_def baseSchemasPath_def path_join_def)
  from mp [OF t2 [THEN conjunct1] fails]
  have "buildDatabaseSchemas (build_node\<lparr>dirname := ''/nowhere''\<rparr>) parse_schema ''starter''
      = generateDefaultSchemas ''starter''" .
  then have dflt: "map name (buildDatabaseSchemas (build_node\<lparr>dirname := ''/nowhere''\<rparr>)
        parse_schema ''starter'') = [''projects'']"
    by (simp add: generateDefaultSchemas_def)
  from starter_config build_node_listing names fails dflt
  show ?thesis by (intro conjI)
qed

text \<open>
  C3 as stated fails: with a store that holds \<open>projects.json\<close> and no file for the other
  four database names of the starter tier, the build package has the one schema
  \<open>projects\<close>; nothing is substituted for \<open>tasks\<close>.
\<close>

theorem missing_schema_counterexample:
  "templateConfigs ''starter'' = Some starter
   \<and> ''tasks'' \<in> set (databases starter)
   \<and> length (databases starter) = 5
   \<and> map name (buildDatabaseSchemas build_node parse_schema ''starter'') = [''projects'']
   \<and> ''tasks'' \<notin> set (map name (buildDatabaseSchemas build_node parse_schema ''starter''))"
proof -
  have a: "''tasks'' \<in> set (databases starter)" by (simp add: starter_def)
  have b: "length (databases starter) = 5" by (simp add: starter_def)
  have c: "''tasks'' \<notin> set (map name (buildDatabaseSchemas build_node parse_schema ''starter''))"
    unfolding build_node_schemas by simp
  from starter_config a b build_node_schemas c show ?thesis by (intro conjI)
qed

section \<open>Properties of the deployment run: hard failures\<close>

text \<open>The definitions that a concrete run unfolds.\<close>

lemmas deploy_defs = deployConstructionTemplate_def deploy_steps_def initializeEnvironment_def
  loadBuildArtifacts_def find_buildFile_def initializeNotionClient_def deployPhase1_Databases_def
  deployPhase2_Views_def deployPhase3_SampleData_def deployPhase4_Integrations_def
  deployPhase5_Finalization_def createDeploymentSummaryPage_def saveDeploymentMetadata_def
  generateDeploymentReport_def cleanupFailedDeployment_def createDatabase_def
  getOrCreateParentPage_def call_users_me_def call_search_def call_pages_create_def
  call_databases_create_def push_step_def push_resource_def push_error_def Date_now_def sleep_def
  write_file_def path_join_def truthy_def or_else_def template_str_def startsWith_def endsWith_def
  since_start_def convertSchemaToNotionProperties_def convertPropertyToNotion_def
  json_of_schema_def json_of_property_def get_member_def truthy_json_def object_entries_def
  assign_member_def defaultProperties_def select_property_def

lemmas example_defs = deploy_node_def parse_package_def second_fails_def probe_fails_def
  fresh_world_def initial_deploymentState_def some_package_def three_schemas_def

lemma initializeEnvironment_effect:
  assumes "initializeEnvironment nd w = (res, w1)"
  shows "remote w1 = remote w \<and> trace w1 = trace w \<and> ticks w1 = ticks w
    \<and> createdResources (deploymentState w1) = createdResources (deploymentState w)
    \<and> errors (deploymentState w1) = errors (deploymentState w)
    \<and> startTime (deploymentState w1) = startTime (deploymentState w)
    \<and> completedSteps (deploymentState w1)
        = completedSteps (deploymentState w) @ (if isl res then [] else [''environment_init''])"
  using assms
  by (auto simp: initializeEnvironment_def push_step_def Let_def split: if_splits)

lemma initializeEnvironment_missing:
  assumes "\<not> truthy (env nd ''CLIENT_NAME'') \<or> \<not> truthy (env nd ''NOTION_TOKEN'')"
  shows "fst (initializeEnvironment nd w)
     = Inl (Error (if \<not> truthy (env nd ''CLIENT_NAME'')
                   then ''CLIENT_NAME environment variable is required''
                   else ''NOTION_TOKEN environment variable is required'') None)"
  using assms by (auto simp: initializeEnvironment_def Let_def)

lemma initializeEnvironment_present:
  assumes "truthy (env nd ''CLIENT_NAME'')" and "truthy (env nd ''NOTION_TOKEN'')"
  shows "fst (initializeEnvironment nd w) = Inr ()
    \<and> client (deploymentState (snd (initializeEnvironment nd w))) = env nd ''CLIENT_NAME''
    \<and> tier (deploymentState (snd (initializeEnvironment nd w)))
        = Some (if truthy (env nd ''DEPLOYMENT_TIER'') then the (env nd ''DEPLOYMENT_TIER'')
                else ''professional'')"
  using assms
  by (auto simp: initializeEnvironment_def Let_def push_step_def or_else_def truthy_def
      split: option.splits)

lemma loadBuildArtifacts_effect:
  "snd (loadBuildArtifacts nd parse w)
     = (if isl (fst (loadBuildArtifacts nd parse w)) then w
        else push_step ''artifacts_loaded'' w)"
  by (simp add: loadBuildArtifacts_def Let_def split: option.splits sum.splits)

lemma initializeNotionClient_probe_fails:
  assumes "fst (users_me nt (remote w)) = Inl e"
  shows "initializeNotionClient nt w
     = (Inl (Error (''Failed to connect to Notion: '' @ message e) None),
        w\<lparr>trace := trace w @ [Call_users_me], remote := snd (users_me nt (remote w))\<rparr>)"
  using assms
  by (cases "users_me nt (remote w)") (simp add: initializeNotionClient_def call_users_me_def)

lemma deploy_steps_missing_input:
  assumes "\<not> truthy (env nd ''CLIENT_NAME'') \<or> \<not> truthy (env nd ''NOTION_TOKEN'')"
  shows "deploy_steps nd parse nt w
     = (Inl (Error (if \<not> truthy (env nd ''CLIENT_NAME'')
                   then ''CLIENT_NAME environment variable is required''
                   else ''NOTION_TOKEN environment variable is required'') None),
        snd (initializeEnvironment nd w))"
proof -
  obtain res w1 where r: "initializeEnvironment nd w = (res, w1)"
    by (cases "initializeEnvironment nd w")
  from initializeEnvironment_missing [OF assms, of w] r
  have "res = Inl (Error (if \<not> truthy (env nd ''CLIENT_NAME'')
                   then ''CLIENT_NAME environment variable is required''
                   else ''NOTION_TOKEN environment variable is required'') None)" by simp
  with r show ?thesis by (simp add: deploy_steps_def)
qed

text \<open>
  C4 (as amended). When \<open>CLIENT_NAME\<close> or \<open>NOTION_TOKEN\<close> is absent or empty at the start
  of a run, \<open>deployConstructionTemplate\<close> ends with the error that names the missing
  variable (the client name first), and the run has made no remote call and no other
  effect: the trace and the workspace are as before, no resource is created and no step is
  recorded. An absent or empty \<open>DEPLOYMENT_TIER\<close> is not an error: with the other two
  present, \<open>initializeEnvironment\<close> succeeds and the tier is \<open>professional\<close>.
\<close>

theorem missing_input_aborts:
  "(\<not> truthy (env nd ''CLIENT_NAME'') \<or> \<not> truthy (env nd ''NOTION_TOKEN'')
     \<longrightarrow> fst (deployConstructionTemplate nd parse nt w)
           = Inl (Error (if \<not> truthy (env nd ''CLIENT_NAME'')
                         then ''CLIENT_NAME environment variable is required''
                         else ''NOTION_TOKEN environment variable is required'') None)
         \<and> trace (snd (deployConstructionTemplate nd parse nt w)) = trace w
         \<and> remote (snd (deployConstructionTemplate nd parse nt w)) = remote w
         \<and> createdResources (deploymentState (snd (deployConstructionTemplate nd parse nt w)))
             = createdResources (deploymentState w)
         \<and> completedSteps (deploymentState (snd (deployConstructionTemplate nd parse nt w)))
             = completedSteps (deploymentState w))
   \<and> (truthy (env nd ''CLIENT_NAME'') \<and> truthy (env nd ''NOTION_TOKEN'')
       \<and> \<not> truthy (env nd ''DEPLOYMENT_TIER'')
     \<longrightarrow> fst (initializeEnvironment nd w) = Inr ()
         \<and> tier (deploymentState (snd (initializeEnvironment nd w))) = Some ''professional'')"
proof (intro conjI impI)
  assume miss: "\<not> truthy (env nd ''CLIENT_NAME'') \<or> \<not> truthy (env nd ''NOTION_TOKEN'')"
  define w0 where "w0 = (snd (Date_now nd w))\<lparr>deploymentState :=
      (deploymentState (snd (Date_now nd w)))\<lparr>startTime := Some (fst (Date_now nd w))\<rparr>\<rparr>"
  define msg where "msg = (if \<not> truthy (env nd ''CLIENT_NAME'')
                         then ''CLIENT_NAME environment variable is required''
                         else ''NOTION_TOKEN environment variable is required'')"
  have run: "deployConstructionTemplate nd parse nt w
      = (Inl (Error msg None), snd (initializeEnvironment nd w0))"
    unfolding deployConstructionTemplate_def msg_def
    by (simp add: case_prod_beta w0_def [symmetric] deploy_steps_missing_input [OF miss]
        cleanupFailedDeployment_def)
  obtain res w1 where r: "initializeEnvironment nd w0 = (res, w1)"
    by (cases "initializeEnvironment nd w0")
  from initializeEnvironment_missing [OF miss, of w0] r have res: "isl res" by simp
  note eff = initializeEnvironment_effect [OF r]
  have w0_facts: "trace w0 = trace w" "remote w0 = remote w"
    "createdResources (deploymentState w0) = createdResources (deploymentState w)"
    "completedSteps (deploymentState w0) = completedSteps (deploymentState w)"
    by (simp_all add: w0_def Date_now_def)
  show "fst (deployConstructionTemplate nd parse nt w)
           = Inl (Error (if \<not> truthy (env nd ''CLIENT_NAME'')
                         then ''CLIENT_NAME environment variable is required''
                         else ''NOTION_TOKEN environment variable is required'') None)"
    unfolding run msg_def by simp
  show "trace (snd (deployConstructionTemplate nd parse nt w)) = trace w"
    unfolding run using eff w0_facts r by simp
  show "remote (snd (deployConstructionTemplate nd parse nt w)) = remote w"
    unfolding run using eff w0_facts r by simp
  show "createdResources (deploymentState (snd (deployConstructionTemplate nd parse nt w)))
             = createdResources (deploymentState w)"
    unfolding run using eff w0_facts r by simp
  show "completedSteps (deploymentState (snd (deployConstructionTemplate nd parse nt w)))
             = completedSteps (deploymentState w)"
    unfolding run using eff w0_facts res r by simp
next
  assume h: "truthy (env nd ''CLIENT_NAME'') \<and> truthy (env nd ''NOTION_TOKEN'')
       \<and> \<not> truthy (env nd ''DEPLOYMENT_TIER'')"
  then show "fst (initializeEnvironment nd w) = Inr ()"
    using initializeEnvironment_present [of nd w] by simp
  from h show "tier (deploymentState (snd (initializeEnvironment nd w))) = Some ''professional''"
    using initializeEnvironment_present [of nd w] by simp
qed


theorem missing_input_aborts_witness:
  "\<not> truthy (env (deploy_node\<lparr>env := (\<lambda>k. None)\<rparr>) ''CLIENT_NAME'')
   \<and> fst (deployConstructionTemplate (deploy_node\<lparr>env := (\<lambda>k. None)\<rparr>) parse_package
          second_fails fresh_world)
       = Inl (Error ''CLIENT_NAME environment variable is required'' None)
   \<and> trace (snd (deployConstructionTemplate (deploy_node\<lparr>env := (\<lambda>k. None)\<rparr>) parse_package
          second_fails fresh_world)) = []
   \<and> truthy (env deploy_node ''CLIENT_NAME'') \<and> truthy (env deploy_node ''NOTION_TOKEN'')
   \<and> \<not> truthy (env deploy_node ''DEPLOYMENT_TIER'')
   \<and> fst (initializeEnvironment deploy_node fresh_world) = Inr ()
   \<and> tier (deploymentState (snd (initializeEnvironment deploy_node fresh_world)))
       = Some ''professional''"
proof -
  have h1: "\<not> truthy (env (deploy_node\<lparr>env := (\<lambda>k. None)\<rparr>) ''CLIENT_NAME'')"
    by (simp add: truthy_def)
  then have h1': "\<not> truthy (env (deploy_node\<lparr>env := (\<lambda>k. None)\<rparr>) ''CLIENT_NAME'')
      \<or> \<not> truthy (env (deploy_node\<lparr>env := (\<lambda>k. None)\<rparr>) ''NOTION_TOKEN'')" by (rule disjI1)
  have h2: "truthy (env deploy_node ''CLIENT_NAME'') \<and> truthy (env deploy_node ''NOTION_TOKEN'')
      \<and> \<not> truthy (env deploy_node ''DEPLOYMENT_TIER'')"
    by (simp add: truthy_def deploy_node_def)
  note a = mp [OF missing_input_aborts [where nd = "deploy_node\<lparr>env := (\<lambda>k. None)\<rparr>"
        and parse = parse_package and nt = second_fails and w = fresh_world,
        THEN conjunct1] h1']
  note b = mp [OF missing_input_aborts [where nd = deploy_node and w = fresh_world,
        THEN conjunct2] h2]
  have a1: "fst (deployConstructionTemplate (deploy_node\<lparr>env := (\<lambda>k. None)\<rparr>) parse_package
          second_fails fresh_world)
       = Inl (Error ''CLIENT_NAME environment variable is required'' None)"
    using a [THEN conjunct1] h1 by simp
  have a2: "trace (snd (deployConstructionTemplate (deploy_node\<lparr>env := (\<lambda>k. None)\<rparr>)
          parse_package second_fails fresh_world)) = []"
    using a [THEN conjunct2, THEN conjunct1] by (simp add: fresh_world_def)
  from h1 a1 a2 h2 b show ?thesis by (simp only: simp_thms)
qed

text \<open>
  C4 as stated fails for the tier identifier: in a run with \<open>DEPLOYMENT_TIER\<close> absent the
  tier becomes \<open>professional\<close>, the identity probe is called and the run returns a report.
\<close>

theorem absent_tier_counterexample:
  "env deploy_node ''DEPLOYMENT_TIER'' = None
   \<and> \<not> isl (fst (deployConstructionTemplate deploy_node parse_package second_fails fresh_world))
   \<and> tier (deploymentState
        (snd (deployConstructionTemplate deploy_node parse_package second_fails fresh_world)))
       = Some ''professional''
   \<and> Call_users_me \<in> set (trace
        (snd (deployConstructionTemplate deploy_node parse_package second_fails fresh_world)))"
  by (simp add: deploy_defs example_defs)


lemma deploy_steps_probe_fails:
  assumes probe: "fst (users_me nt (remote w)) = Inl e"
  shows "\<exists>err evs steps.
      deploy_steps nd parse nt w = (Inl err, snd (deploy_steps nd parse nt w))
    \<and> trace (snd (deploy_steps nd parse nt w)) = trace w @ evs
    \<and> (evs = [] \<or> evs = [Call_users_me]
            \<and> err = Error (''Failed to connect to Notion: '' @ message e) None)
    \<and> completedSteps (deploymentState (snd (deploy_steps nd parse nt w)))
        = completedSteps (deploymentState w) @ steps
    \<and> set steps \<subseteq> {''environment_init'', ''artifacts_loaded''}
    \<and> createdResources (deploymentState (snd (deploy_steps nd parse nt w)))
        = createdResources (deploymentState w)
    \<and> errors (deploymentState (snd (deploy_steps nd parse nt w)))
        = errors (deploymentState w)"
proof -
  obtain r1 w1 where i: "initializeEnvironment nd w = (r1, w1)"
    by (cases "initializeEnvironment nd w")
  note e1 = initializeEnvironment_effect [OF i]
  show ?thesis
  proof (cases r1)
    case (Inl err)
    then have "deploy_steps nd parse nt w = (Inl err, w1)" using i by (simp add: deploy_steps_def)
    then show ?thesis using e1 Inl by simp
  next
    case (Inr u)
    note r1 = this
    obtain r2 w2 where l: "loadBuildArtifacts nd parse w1 = (r2, w2)"
      by (cases "loadBuildArtifacts nd parse w1")
    have w2: "w2 = (if isl r2 then w1 else push_step ''artifacts_loaded'' w1)"
      using loadBuildArtifacts_effect [of nd parse w1] l by simp
    show ?thesis
    proof (cases r2)
      case (Inl err)
      then have "deploy_steps nd parse nt w = (Inl err, w2)"
        using i r1 l by (simp add: deploy_steps_def)
      then show ?thesis using e1 r1 w2 Inl by simp
    next
      case (Inr pkg)
      then have w2': "w2 = push_step ''artifacts_loaded'' w1" using w2 by simp
      have rem: "remote w2 = remote w" using e1 w2' by (simp add: push_step_def)
      have probe2: "fst (users_me nt (remote w2)) = Inl e" using probe rem by simp
      have "deploy_steps nd parse nt w
          = (Inl (Error (''Failed to connect to Notion: '' @ message e) None),
             w2\<lparr>trace := trace w2 @ [Call_users_me],
                remote := snd (users_me nt (remote w2))\<rparr>)"
        using i r1 l Inr initializeNotionClient_probe_fails [OF probe2]
        by (simp add: deploy_steps_def)
      then show ?thesis using e1 r1 w2' by (simp add: push_step_def)
    qed
  qed
qed

text \<open>
  C2. If the workspace rejects the identity probe \<open>users.me()\<close>, a run of
  \<open>deployConstructionTemplate\<close> ends with an error, and when the probe was called the error
  is the connection failure. The run performs no effect but at most the probe itself: no
  \<open>databases.create\<close> call is issued. It appends to \<open>completedSteps\<close> at most
  \<open>environment_init\<close> and \<open>artifacts_loaded\<close> and creates no resource, so \<open>completedSteps\<close>
  does not contain \<open>databases_deployed\<close> unless it did before the run (the module starts
  with the empty list).
\<close>

theorem probe_failure_short_circuit:
  assumes probe: "fst (users_me nt (remote w)) = Inl e"
  shows "isl (fst (deployConstructionTemplate nd parse nt w))
    \<and> (\<exists>evs. trace (snd (deployConstructionTemplate nd parse nt w)) = trace w @ evs
          \<and> set evs \<subseteq> {Call_users_me})
    \<and> (trace (snd (deployConstructionTemplate nd parse nt w)) = trace w @ [Call_users_me]
          \<longrightarrow> fst (deployConstructionTemplate nd parse nt w)
                = Inl (Error (''Failed to connect to Notion: '' @ message e) None))
    \<and> (\<exists>steps. completedSteps (deploymentState (snd (deployConstructionTemplate nd parse nt w)))
            = completedSteps (deploymentState w) @ steps
          \<and> set steps \<subseteq> {''environment_init'', ''artifacts_loaded''})
    \<and> createdResources (deploymentState (snd (deployConstructionTemplate nd parse nt w)))
        = createdResources (deploymentState w)
    \<and> (''databases_deployed'' \<notin> set (completedSteps (deploymentState w))
          \<longrightarrow> ''databases_deployed'' \<notin> set (completedSteps (deploymentState
                (snd (deployConstructionTemplate nd parse nt w)))))"
proof -
  define w0 where "w0 = (snd (Date_now nd w))\<lparr>deploymentState :=
      (deploymentState (snd (Date_now nd w)))\<lparr>startTime := Some (fst (Date_now nd w))\<rparr>\<rparr>"
  have w0_facts: "trace w0 = trace w" "remote w0 = remote w"
    "createdResources (deploymentState w0) = createdResources (deploymentState w)"
    "completedSteps (deploymentState w0) = completedSteps (deploymentState w)"
    by (simp_all add: w0_def Date_now_def)
  have probe0: "fst (users_me nt (remote w0)) = Inl e" using probe w0_facts by simp
  from deploy_steps_probe_fails [OF probe0, of nd parse] obtain err evs steps where
    ds: "deploy_steps nd parse nt w0 = (Inl err, snd (deploy_steps nd parse nt w0))"
    and tr: "trace (snd (deploy_steps nd parse nt w0)) = trace w0 @ evs"
    and evs: "evs = [] \<or> evs = [Call_users_me]
            \<and> err = Error (''Failed to connect to Notion: '' @ message e) None"
    and st: "completedSteps (deploymentState (snd (deploy_steps nd parse nt w0)))
        = completedSteps (deploymentState w0) @ steps"
    and sub: "set steps \<subseteq> {''environment_init'', ''artifacts_loaded''}"
    and cr: "createdResources (deploymentState (snd (deploy_steps nd parse nt w0)))
        = createdResources (deploymentState w0)"
    by blast
  define w1 where "w1 = snd (deploy_steps nd parse nt w0)"
  have ds': "deploy_steps nd parse nt w0 = (Inl err, w1)" using ds unfolding w1_def .
  have run: "deployConstructionTemplate nd parse nt w = (Inl err, w1)"
    unfolding deployConstructionTemplate_def
    by (simp add: case_prod_beta ds' [unfolded w0_def] cleanupFailedDeployment_def)
  have 1: "isl (fst (deployConstructionTemplate nd parse nt w))" unfolding run by simp
  have 2: "\<exists>evs. trace (snd (deployConstructionTemplate nd parse nt w)) = trace w @ evs
          \<and> set evs \<subseteq> {Call_users_me}"
    unfolding run using tr evs w0_facts unfolding w1_def [symmetric] by auto
  have 3: "trace (snd (deployConstructionTemplate nd parse nt w)) = trace w @ [Call_users_me]
          \<longrightarrow> fst (deployConstructionTemplate nd parse nt w)
                = Inl (Error (''Failed to connect to Notion: '' @ message e) None)"
    unfolding run using tr evs w0_facts unfolding w1_def [symmetric] by auto
  have 4: "\<exists>steps. completedSteps (deploymentState (snd (deployConstructionTemplate nd parse nt w)))
            = completedSteps (deploymentState w) @ steps
          \<and> set steps \<subseteq> {''environment_init'', ''artifacts_loaded''}"
    unfolding run using st sub w0_facts unfolding w1_def [symmetric] by auto
  have 5: "createdResources (deploymentState (snd (deployConstructionTemplate nd parse nt w)))
        = createdResources (deploymentState w)"
    unfolding run using cr w0_facts unfolding w1_def [symmetric] by simp
  have 6: "''databases_deployed'' \<notin> set (completedSteps (deploymentState w))
          \<longrightarrow> ''databases_deployed'' \<notin> set (completedSteps (deploymentState
                (snd (deployConstructionTemplate nd parse nt w))))"
  proof
    assume a: "''databases_deployed'' \<notin> set (completedSteps (deploymentState w))"
    have "''databases_deployed'' \<notin> set steps"
    proof
      assume "''databases_deployed'' \<in> set steps"
      from sub this have "''databases_deployed'' \<in> {''environment_init'', ''artifacts_loaded''}"
        by (rule subsetD)
      then show False by simp
    qed
    with a show "''databases_deployed'' \<notin> set (completedSteps (deploymentState
                (snd (deployConstructionTemplate nd parse nt w))))"
      unfolding run using st w0_facts unfolding w1_def [symmetric] by simp
  qed
  from 1 2 3 4 5 6 show ?thesis by (intro conjI)
qed

theorem probe_failure_short_circuit_witness:
  "fst (users_me probe_fails (remote fresh_world)) = Inl (Error ''unauthorized'' None)
   \<and> ''databases_deployed'' \<notin> set (completedSteps (deploymentState fresh_world))
   \<and> fst (deployConstructionTemplate deploy_node parse_package probe_fails fresh_world)
       = Inl (Error ''Failed to connect to Notion: unauthorized'' None)
   \<and> trace (snd (deployConstructionTemplate deploy_node parse_package probe_fails fresh_world))
       = [Call_users_me]
   \<and> ''databases_deployed'' \<notin> set (completedSteps (deploymentState
        (snd (deployConstructionTemplate deploy_node parse_package probe_fails fresh_world))))"
proof -
  have h: "fst (users_me probe_fails (remote fresh_world)) = Inl (Error ''unauthorized'' None)"
    by (simp add: probe_fails_def second_fails_def fresh_world_def)
  have f: "''databases_deployed'' \<notin> set (completedSteps (deploymentState fresh_world))"
    by (simp add: fresh_world_def initial_deploymentState_def)
  note t = probe_failure_short_circuit [OF h, where nd = deploy_node and parse = parse_package]
  have tr: "trace (snd (deployConstructionTemplate deploy_node parse_package probe_fails
        fresh_world)) = [Call_users_me]"
    by (simp add: deploy_defs example_defs)
  have tr': "trace (snd (deployConstructionTemplate deploy_node parse_package probe_fails
        fresh_world)) = trace fresh_world @ [Call_users_me]"
    unfolding tr by (simp add: fresh_world_def)
  from mp [OF t [THEN conjunct2, THEN conjunct2, THEN conjunct1] tr']
  have res: "fst (deployConstructionTemplate deploy_node parse_package probe_fails fresh_world)
       = Inl (Error ''Failed to connect to Notion: unauthorized'' None)"
    by simp
  note no = mp [OF t [THEN conjunct2, THEN conjunct2, THEN conjunct2, THEN conjunct2,
        THEN conjunct2] f]
  from h f res tr no show ?thesis by (intro conjI)
qed

section \<open>Properties of the deployment run: soft failures\<close>

text \<open>
  The schema of a build package entry is an object whose fields are objects with an array
  of options, so its conversion never throws.
\<close>

lemma convertProperty_typed: "\<not> isl (convertPropertyToNotion (json_of_property p))"
  by (cases "type p"; cases "options p"; cases "format p")
     (simp_all add: convertPropertyToNotion_def json_of_property_def get_member_def)

lemma convert_entries_typed:
  "\<not> isl (convert_entries (map (\<lambda>(nm, p). (nm, json_of_property p)) entries) acc)"
proof (induction entries arbitrary: acc)
  case Nil
  show ?case by simp
next
  case (Cons e entries)
  obtain nm p where e: "e = (nm, p)" by (cases e)
  from convertProperty_typed [of p] obtain v where
    v: "convertPropertyToNotion (json_of_property p) = Inr v"
    by (cases "convertPropertyToNotion (json_of_property p)") simp_all
  show ?case unfolding e using Cons.IH [of "assign_member nm v acc"] by (simp add: v)
qed

lemma convertSchema_typed:
  "\<exists>props. convertSchemaToNotionProperties (json_of_schema sch) = Inr props"
proof (cases "properties sch")
  case None
  then show ?thesis
    by (cases "title sch")
       (simp_all add: convertSchemaToNotionProperties_def json_of_schema_def get_member_def)
next
  case (Some entries)
  from convert_entries_typed [of entries "[]"] obtain props where
    "convert_entries (map (\<lambda>(nm, p). (nm, json_of_property p)) entries) [] = Inr props"
    by (cases "convert_entries (map (\<lambda>(nm, p). (nm, json_of_property p)) entries) []")
       simp_all
  with Some show ?thesis
    by (cases "title sch")
       (simp_all add: convertSchemaToNotionProperties_def json_of_schema_def get_member_def
          truthy_json_def object_entries_def)
qed

lemmas createDatabase_defs = createDatabase_def getOrCreateParentPage_def call_search_def
  call_pages_create_def call_databases_create_def

lemma createDatabase_result:
  "fst (createDatabase nt s c w) = fst (createDatabase nt s c (bare (remote w)))"
proof -
  from convertSchema_typed [of "schema s"] obtain props where
    p: "convertSchemaToNotionProperties (json_of_schema (schema s)) = Inr props" by blast
  show ?thesis
    by (auto simp: createDatabase_defs p bare_def split: prod.splits sum.splits list.splits)
qed

lemma createDatabase_remote:
  "remote (snd (createDatabase nt s c w)) = remote (snd (createDatabase nt s c (bare (remote w))))"
proof -
  from convertSchema_typed [of "schema s"] obtain props where
    p: "convertSchemaToNotionProperties (json_of_schema (schema s)) = Inr props" by blast
  show ?thesis
    by (auto simp: createDatabase_defs p bare_def split: prod.splits sum.splits list.splits)
qed

lemma createDatabase_state:
  "deploymentState (snd (createDatabase nt s c w)) = deploymentState w"
proof -
  from convertSchema_typed [of "schema s"] obtain props where
    p: "convertSchemaToNotionProperties (json_of_schema (schema s)) = Inr props" by blast
  show ?thesis
    by (auto simp: createDatabase_defs p split: prod.splits sum.splits list.splits)
qed

lemma createDatabase_one_search:
  "length (filter is_search (trace (snd (createDatabase nt s c w))))
     = Suc (length (filter is_search (trace w)))"
proof -
  from convertSchema_typed [of "schema s"] obtain props where
    p: "convertSchemaToNotionProperties (json_of_schema (schema s)) = Inr props" by blast
  show ?thesis
    by (auto simp: createDatabase_defs p split: prod.splits sum.splits list.splits)
qed

lemma length_create_outcomes: "length (create_outcomes nt c dbs r) = length dbs"
  by (induction dbs arbitrary: r) (simp_all split: prod.splits)

lemma length_error_records:
  "length outs = length dbs \<Longrightarrow> length (error_records dbs outs) = length (filter isl outs)"
  by (induction dbs outs rule: error_records.induct) simp_all

lemma length_resource_records:
  "length outs = length dbs \<Longrightarrow>
   length (resource_records dbs outs) = length (filter (\<lambda>out. \<not> isl out) outs)"
  by (induction dbs outs rule: resource_records.induct) simp_all

lemma databases_loop_spec:
  "fst (databases_loop nt c dbs created w)
      = created @ map res_id (resource_records dbs (create_outcomes nt c dbs (remote w)))
   \<and> errors (deploymentState (snd (databases_loop nt c dbs created w)))
      = errors (deploymentState w) @ error_records dbs (create_outcomes nt c dbs (remote w))
   \<and> createdResources (deploymentState (snd (databases_loop nt c dbs created w)))
      = createdResources (deploymentState w)
          @ resource_records dbs (create_outcomes nt c dbs (remote w))
   \<and> completedSteps (deploymentState (snd (databases_loop nt c dbs created w)))
      = completedSteps (deploymentState w)
   \<and> length (filter is_search (trace (snd (databases_loop nt c dbs created w))))
      = length (filter is_search (trace w)) + length dbs"
proof (induction dbs arbitrary: created w)
  case Nil
  show ?case by simp
next
  case (Cons s rest)
  obtain res w1 where cd: "createDatabase nt s c w = (res, w1)"
    by (cases "createDatabase nt s c w")
  obtain res0 w0 where cd0: "createDatabase nt s c (bare (remote w)) = (res0, w0)"
    by (cases "createDatabase nt s c (bare (remote w))")
  have res: "res = res0" using createDatabase_result [of nt s c w] cd cd0 by simp
  have rem: "remote w1 = remote w0" using createDatabase_remote [of nt s c w] cd cd0 by simp
  have st: "deploymentState w1 = deploymentState w"
    using createDatabase_state [of nt s c w] cd by simp
  have srch: "length (filter is_search (trace w1)) = Suc (length (filter is_search (trace w)))"
    using createDatabase_one_search [of nt s c w] cd by simp
  show ?case
  proof (cases res)
    case (Inl e)
    define w2 where "w2 = push_error
        \<lparr>phase = ''databases'', resource = name s, error = message e\<rparr> w1"
    have w2: "remote w2 = remote w0" "errors (deploymentState w2)
          = errors (deploymentState w)
            @ [\<lparr>phase = ''databases'', resource = name s, error = message e\<rparr>]"
      "createdResources (deploymentState w2) = createdResources (deploymentState w)"
      "completedSteps (deploymentState w2) = completedSteps (deploymentState w)"
      "trace w2 = trace w1"
      by (simp_all add: w2_def push_error_def rem st)
    have step: "databases_loop nt c (s # rest) created w = databases_loop nt c rest created w2"
      using cd Inl by (simp add: w2_def)
    have outs: "create_outcomes nt c (s # rest) (remote w)
        = Inl e # create_outcomes nt c rest (remote w0)"
      using cd0 res Inl by simp
    show ?thesis
      unfolding step outs using Cons.IH [of created w2] w2 srch by simp
  next
    case (Inr i)
    define w2 where "w2 = sleep 1000 (push_resource
        \<lparr>res_type = ''database'', res_name = Some (name s), res_id = i\<rparr> w1)"
    have w2: "remote w2 = remote w0"
      "errors (deploymentState w2) = errors (deploymentState w)"
      "createdResources (deploymentState w2) = createdResources (deploymentState w)
          @ [\<lparr>res_type = ''database'', res_name = Some (name s), res_id = i\<rparr>]"
      "completedSteps (deploymentState w2) = completedSteps (deploymentState w)"
      "trace w2 = trace w1 @ [Sleep 1000]"
      by (simp_all add: w2_def push_resource_def sleep_def rem st)
    have step: "databases_loop nt c (s # rest) created w
        = databases_loop nt c rest (created @ [i]) w2"
      using cd Inr by (simp add: w2_def)
    have outs: "create_outcomes nt c (s # rest) (remote w)
        = Inr i # create_outcomes nt c rest (remote w0)"
      using cd0 res Inr by simp
    show ?thesis
      unfolding step outs using Cons.IH [of "created @ [i]" w2] w2 srch by simp
  qed
qed

text \<open>
  C1. In \<open>deployPhase1_Databases\<close> every schema of the build package is attempted, in
  order, whatever the outcomes of the earlier attempts: the phase makes one search call per
  schema and always completes. It appends to \<open>deploymentState.errors\<close> exactly one record
  (phase \<open>databases\<close>, the schema's name, the error's message) for each schema whose
  creation failed, appends to \<open>deploymentState.createdResources\<close> exactly one record for each
  schema whose creation succeeded, returns the ids of the created databases, and appends
  \<open>databases_deployed\<close> to \<open>completedSteps\<close>. Both lists are empty when the phase starts in a
  run from the module's initial state, so they then hold these records and no other.
\<close>

theorem soft_failure_isolation:
  assumes dbs: "(case schemas pkg of None \<Rightarrow> [] | Some l \<Rightarrow> l) = dbs"
    and outs: "create_outcomes nt (bp_client pkg) dbs (remote w) = outs"
    and run: "deployPhase1_Databases nt pkg w = (created, w')"
  shows "length outs = length dbs
    \<and> length (filter is_search (trace w')) = length (filter is_search (trace w)) + length dbs
    \<and> errors (deploymentState w') = errors (deploymentState w) @ error_records dbs outs
    \<and> length (error_records dbs outs) = length (filter isl outs)
    \<and> createdResources (deploymentState w')
        = createdResources (deploymentState w) @ resource_records dbs outs
    \<and> length (resource_records dbs outs) = length (filter (\<lambda>out. \<not> isl out) outs)
    \<and> created = map res_id (resource_records dbs outs)
    \<and> completedSteps (deploymentState w')
        = completedSteps (deploymentState w) @ [''databases_deployed'']"
proof -
  have len: "length outs = length dbs" using outs length_create_outcomes [of nt _ dbs] by auto
  note spec = databases_loop_spec [of nt "bp_client pkg" dbs "[]" w, unfolded outs]
  obtain cr w1 where loop: "databases_loop nt (bp_client pkg) dbs [] w = (cr, w1)"
    by (cases "databases_loop nt (bp_client pkg) dbs [] w")
  from run have cr: "created = cr" and w': "w' = push_step ''databases_deployed'' w1"
    unfolding deployPhase1_Databases_def dbs by (simp_all add: loop Let_def)
  from spec have s1: "cr = map res_id (resource_records dbs outs)"
    and s2: "errors (deploymentState w1) = errors (deploymentState w) @ error_records dbs outs"
    and s3: "createdResources (deploymentState w1)
        = createdResources (deploymentState w) @ resource_records dbs outs"
    and s4: "completedSteps (deploymentState w1) = completedSteps (deploymentState w)"
    and s5: "length (filter is_search (trace w1))
        = length (filter is_search (trace w)) + length dbs"
    unfolding loop by simp_all
  have 2: "length (filter is_search (trace w')) = length (filter is_search (trace w)) + length dbs"
    unfolding w' using s5 by (simp add: push_step_def)
  have 3: "errors (deploymentState w') = errors (deploymentState w) @ error_records dbs outs"
    unfolding w' using s2 by (simp add: push_step_def)
  have 5: "createdResources (deploymentState w')
        = createdResources (deploymentState w) @ resource_records dbs outs"
    unfolding w' using s3 by (simp add: push_step_def)
  have 7: "created = map res_id (resource_records dbs outs)" using cr s1 by simp
  have 8: "completedSteps (deploymentState w')
        = completedSteps (deploymentState w) @ [''databases_deployed'']"
    unfolding w' using s4 by (simp add: push_step_def)
  from len 2 3 length_error_records [OF len] 5 length_resource_records [OF len] 7 8
  show ?thesis by (intro conjI)
qed


lemma second_fails_outcomes:
  "create_outcomes second_fails (bp_client some_package) three_schemas (remote fresh_world)
     = [Inr ''db-0'', Inl (Error ''validation_error'' None), Inr ''db-2'']"
  by (simp add: createDatabase_defs bare_def second_fails_def some_package_def
      three_schemas_def fresh_world_def Let_def show_nat.simps
      convertSchemaToNotionProperties_def json_of_schema_def get_member_def truthy_json_def
      object_entries_def)

theorem soft_failure_isolation_witness:
  "(case schemas some_package of None \<Rightarrow> [] | Some l \<Rightarrow> l) = three_schemas
   \<and> create_outcomes second_fails (bp_client some_package) three_schemas (remote fresh_world)
       = [Inr ''db-0'', Inl (Error ''validation_error'' None), Inr ''db-2'']
   \<and> errors (deploymentState (snd (deployPhase1_Databases second_fails some_package
        fresh_world)))
       = [\<lparr>phase = ''databases'', resource = ''tasks'', error = ''validation_error''\<rparr>]
   \<and> createdResources (deploymentState (snd (deployPhase1_Databases second_fails some_package
        fresh_world)))
       = [\<lparr>res_type = ''database'', res_name = Some ''projects'', res_id = ''db-0''\<rparr>,
          \<lparr>res_type = ''database'', res_name = Some ''clients'', res_id = ''db-2''\<rparr>]
   \<and> completedSteps (deploymentState (snd (deployPhase1_Databases second_fails some_package
        fresh_world)))
       = [''databases_deployed'']"
proof -
  have h1: "(case schemas some_package of None \<Rightarrow> [] | Some l \<Rightarrow> l) = three_schemas"
    by (simp add: some_package_def)
  obtain created w' where
    run: "deployPhase1_Databases second_fails some_package fresh_world = (created, w')"
    by (cases "deployPhase1_Databases second_fails some_package fresh_world")
  note t = soft_failure_isolation [OF h1 second_fails_outcomes run]
  have e: "errors (deploymentState w')
       = [\<lparr>phase = ''databases'', resource = ''tasks'', error = ''validation_error''\<rparr>]"
    using t [THEN conjunct2, THEN conjunct2, THEN conjunct1]
    by (simp add: fresh_world_def initial_deploymentState_def three_schemas_def)
  have r: "createdResources (deploymentState w')
       = [\<lparr>res_type = ''database'', res_name = Some ''projects'', res_id = ''db-0''\<rparr>,
          \<lparr>res_type = ''database'', res_name = Some ''clients'', res_id = ''db-2''\<rparr>]"
    using t [THEN conjunct2, THEN conjunct2, THEN conjunct2, THEN conjunct2, THEN conjunct1]
    by (simp add: fresh_world_def initial_deploymentState_def three_schemas_def)
  have c: "completedSteps (deploymentState w') = [''databases_deployed'']"
    using t [THEN conjunct2, THEN conjunct2, THEN conjunct2, THEN conjunct2, THEN conjunct2,
        THEN conjunct2, THEN conjunct2]
    by (simp add: fresh_world_def initial_deploymentState_def)
  from h1 second_fails_outcomes e r c show ?thesis unfolding run by simp
qed

end
